theory Spec2Isabelle
  imports Main
begin

section \<open>Unied: the editing core of \<open>src/main.c\<close>\<close>

text \<open>
  The C program keeps one global \<open>EditorState E\<close>; every function below takes the
  state and returns the updated one. C \<open>int\<close> values are modelled by \<open>int\<close>
  (no claim depends on 32-bit wrap-around: all arithmetic is on line lengths and
  indices). Heap buffers are lists whose length is the number of allocated cells; the
  empty list is the NULL pointer.

  A \<open>memmove\<close> through a NULL buffer pointer ends the run of the C program; it is the
  value \<open>Inl NullDereference\<close> of the functions that can reach one, which return
  \<open>fault + 'a\<close>. Memory allocation is taken to succeed, except for the two \<open>realloc\<close>
  calls of \<open>editor_line_insert_char\<close>, whose outcomes are arguments of the model.
  Every other access outside a buffer is undefined behaviour in C (there the list
  operations of the model drop the access), so the general theorems carry a
  well-formedness hypothesis wherever a buffer is read or written, and the concrete runs
  stay inside their buffers.

  The terminal is not resized: the height that \<open>getmaxyx\<close> reports is the field
  \<open>total_screen_rows\<close> set by \<open>init_editor\<close>. Keys arrive as the list of key codes
  that \<open>editor_read_key\<close> returns.
\<close>

subsection \<open>Configuration constants\<close>

definition MAX_LINE_LENGTH_BUFFER :: int where
  "MAX_LINE_LENGTH_BUFFER = 256"

definition MAX_UNDO_HISTORY :: int where
  "MAX_UNDO_HISTORY = 100"

definition COMMAND_TIMEOUT_MS :: int where
  "COMMAND_TIMEOUT_MS = 1500"

definition MAX_COMMAND_SEQUENCE_LENGTH :: int where
  "MAX_COMMAND_SEQUENCE_LENGTH = 10"

definition KEY_ENTER :: int where
  "KEY_ENTER = 343"

definition KEY_BACKSPACE :: int where
  "KEY_BACKSPACE = 263"

definition KEY_DOWN :: int where
  "KEY_DOWN = 258"

definition KEY_UP :: int where
  "KEY_UP = 259"

definition KEY_LEFT :: int where
  "KEY_LEFT = 260"

definition KEY_RIGHT :: int where
  "KEY_RIGHT = 261"

definition MAX_STATUS_MESSAGE_LENGTH :: int where
  "MAX_STATUS_MESSAGE_LENGTH = 256"

definition BORDER_WIDTH :: int where
  "BORDER_WIDTH = 1"

definition HINT_ROWS :: int where
  "HINT_ROWS = 2"

definition SUGGESTION_ROWS :: int where
  "SUGGESTION_ROWS = 3"

subsection \<open>Raw memory helpers\<close>

text \<open>
  \<open>uninit_char\<close> and \<open>uninit_hl\<close> stand for the contents of freshly allocated
  cells. The byte is chosen different from NUL so that no termination property can
  hold by accident of the filler.
\<close>

definition uninit_char :: char where
  "uninit_char = CHR 0xCD"

text \<open>\<open>memmove(&buf[d], &buf[s], n)\<close> on one buffer.\<close>

definition memmove :: "'a list \<Rightarrow> nat \<Rightarrow> nat \<Rightarrow> nat \<Rightarrow> 'a list" where
  "memmove buf d s n = take d buf @ take n (drop s buf) @ drop (d + n) buf"

text \<open>\<open>memcpy(&buf[d], src, n)\<close>, where \<open>src\<close> lists the bytes readable at the source pointer.\<close>

definition memcpy :: "'a list \<Rightarrow> nat \<Rightarrow> 'a list \<Rightarrow> nat \<Rightarrow> 'a list" where
  "memcpy buf d src n = take d buf @ take n src @ drop (d + n) buf"

text \<open>\<open>realloc(buf, n)\<close>: the old cells are kept, new cells are uninitialised.\<close>

definition realloc :: "'a list \<Rightarrow> nat \<Rightarrow> 'a \<Rightarrow> 'a list" where
  "realloc buf n fill = take n buf @ replicate (n - length buf) fill"

text \<open>The C string starting at a pointer: the bytes up to the first NUL.\<close>

definition cstring :: "char list \<Rightarrow> string" where
  "cstring p = takeWhile (\<lambda>c. c \<noteq> CHR 0x00) p"

definition strlen :: "char list \<Rightarrow> int" where
  "strlen p = int (length (cstring p))"

subsection \<open>Data model\<close>

text \<open>The one way a run of the editing core ends abnormally.\<close>

datatype fault = NullDereference

datatype HighlightType =
  HL_NORMAL | HL_COMMENT | HL_STRING | HL_NUMBER | HL_OPERATOR | HL_KEYWORD

definition uninit_hl :: HighlightType where
  "uninit_hl = HL_NORMAL"

text \<open>
  \<open>chars\<close> and \<open>hl\<close> are the two heap buffers of a line; the empty list is the
  NULL pointer. The C field \<open>size\<close> is \<open>size_ln\<close> here.
\<close>

record EditorLine =
  chars :: "char list"
  size_ln :: int
  allocated :: int
  hl :: "HighlightType list"
  hl_revision :: int

record CommandState =
  sequence :: "char list"
  length_cmd :: int
  last_key_time :: int
  active :: bool
  show_help :: bool

datatype UndoType =
  UNDO_INSERT_CHAR | UNDO_DELETE_CHAR | UNDO_INSERT_EMPTY_LINE | UNDO_SPLIT_LINE
  | UNDO_JOIN_LINES | UNDO_INSERT_BLOCK | UNDO_DELETE_BLOCK | UNDO_MODIFY_LINE_CASE

text \<open>
  The C fields \<open>type\<close>, \<open>y\<close>, \<open>x\<close> carry the suffix \<open>_ua\<close>. \<open>text_content\<close>
  is \<open>None\<close> for NULL and otherwise the C string the pointer owns.
\<close>

record UndoAction =
  type_ua :: UndoType
  y_ua :: int
  x_ua :: int
  char_val :: char
  text_content :: "string option"
  text_len :: int
  num_lines_affected :: int

text \<open>
  \<open>lines\<close> holds the \<open>num_lines\<close> live entries of the array \<open>E.lines\<close>, so
  \<open>num_lines\<close> is its length; the spare capacity \<open>allocated_lines\<close> is not
  modelled. \<open>undo_history\<close> and \<open>redo_history\<close> are the fixed arrays of
  \<open>MAX_UNDO_HISTORY\<close> slots with their head indices.
\<close>

record EditorState =
  lines :: "EditorLine list"
  cursor_x :: int
  cursor_y :: int
  scroll_y :: int
  total_screen_rows :: int
  screen_rows :: int
  dirty :: bool
  status_message :: string
  in_multiline_comment_global :: bool
  dirty_line_start :: int
  dirty_line_end :: int
  cmd :: CommandState
  creative_mode :: bool
  is_code_file :: bool
  visual_mode :: bool
  visual_start_x :: int
  visual_start_y :: int
  undo_history :: "UndoAction list"
  undo_head :: int
  redo_history :: "UndoAction list"
  redo_head :: int

definition num_lines :: "EditorState \<Rightarrow> int" where
  "num_lines E = int (length (lines E))"

text \<open>The text of a line as the user sees it: the first \<open>size\<close> bytes of the buffer.\<close>

definition line_text :: "EditorLine \<Rightarrow> string" where
  "line_text l = take (nat (size_ln l)) (chars l)"

definition document :: "EditorState \<Rightarrow> string list" where
  "document E = map line_text (lines E)"

text \<open>
  The representation invariant of a line buffer: the buffer has \<open>allocated\<close> cells,
  the text fits with its terminator, and the terminator is in place.
\<close>

definition line_ok :: "EditorLine \<Rightarrow> bool" where
  "line_ok l \<longleftrightarrow>
     length (chars l) = nat (allocated l) \<and> 0 \<le> size_ln l \<and> size_ln l < allocated l
     \<and> chars l ! nat (size_ln l) = CHR 0x00"

subsection \<open>Status line and dirty range\<close>

definition set_status_message :: "string \<Rightarrow> EditorState \<Rightarrow> EditorState" where
  "set_status_message msg E = E\<lparr>status_message := take 255 msg\<rparr>"

definition mark_lines_dirty :: "int \<Rightarrow> int \<Rightarrow> EditorState \<Rightarrow> EditorState" where
  "mark_lines_dirty start end_l E =
     (let start1 = (if start < 0 then 0 else start);
          end1 = (if end_l \<ge> num_lines E then num_lines E - 1 else end_l);
          E1 = (if dirty_line_start E = -1 \<or> start1 < dirty_line_start E
                then E\<lparr>dirty_line_start := start1\<rparr> else E)
      in if end1 > dirty_line_end E1 then E1\<lparr>dirty_line_end := end1\<rparr> else E1)"

subsection \<open>Line buffer primitives\<close>

text \<open>
  Both primitives move the cells of \<open>line->chars\<close> and of \<open>line->hl\<close>. A line fresh
  from \<open>editor_insert_line\<close> has \<open>hl == NULL\<close> until \<open>update_highlighting\<close> allocates
  it, and a failed reallocation leaves NULL in \<open>chars\<close> or \<open>hl\<close>; the \<open>memmove\<close> through
  a NULL pointer is the fault \<open>NullDereference\<close>.

  \<open>chars_ok\<close> and \<open>hl_ok\<close> say whether the two \<open>realloc\<close> calls of
  \<open>editor_line_insert_char\<close> succeed. When one of them fails, the function has
  already stored both results in the line and returns at once, \<open>allocated\<close> and
  \<open>size\<close> unchanged (the status text it sets belongs to the global state and is not part
  of the line).
\<close>

definition editor_line_insert_char ::
  "bool \<Rightarrow> bool \<Rightarrow> EditorLine \<Rightarrow> int \<Rightarrow> char \<Rightarrow> fault + EditorLine" where
  "editor_line_insert_char chars_ok hl_ok line at c =
     (if at < 0 \<or> at > size_ln line then Inr line
      else
        let grow = (size_ln line + 2 > allocated line);
            new_allocated = (if allocated line = 0 then MAX_LINE_LENGTH_BUFFER
                             else allocated line * 2);
            line0 = (if grow then
                       line\<lparr>chars := (if chars_ok
                                        then realloc (chars line) (nat new_allocated) uninit_char
                                        else []),
                            hl := (if hl_ok
                                   then realloc (hl line) (nat new_allocated) uninit_hl
                                   else [])\<rparr>
                     else line)
        in if grow \<and> (chars line0 = [] \<or> hl line0 = []) then Inr line0
           else
             let line1 = (if grow then line0\<lparr>allocated := new_allocated\<rparr> else line0);
                 n = nat (size_ln line1 - at + 1)
             in if chars line1 = [] \<or> hl line1 = [] then Inl NullDereference
                else
                  let cs = (memmove (chars line1) (nat (at + 1)) (nat at) n)[nat at := c];
                      hs = memmove (hl line1) (nat (at + 1)) (nat at) n;
                      sz = size_ln line1 + 1
                  in Inr (line1\<lparr>chars := cs[nat sz := CHR 0x00], hl := hs, size_ln := sz,
                                hl_revision := hl_revision line1 + 1\<rparr>))"

definition editor_line_delete_char :: "EditorLine \<Rightarrow> int \<Rightarrow> fault + EditorLine" where
  "editor_line_delete_char line at =
     (if at < 0 \<or> at \<ge> size_ln line then Inr line
      else if chars line = [] \<or> hl line = [] then Inl NullDereference
      else
        let n = nat (size_ln line - at);
            cs = memmove (chars line) (nat at) (nat (at + 1)) n;
            hs = memmove (hl line) (nat at) (nat (at + 1)) n;
            sz = size_ln line - 1
        in Inr (line\<lparr>chars := cs[nat sz := CHR 0x00], hl := hs, size_ln := sz,
                     hl_revision := hl_revision line + 1\<rparr>))"


text \<open>
  The line that \<open>editor_insert_line\<close> stores into the slot \<open>E.lines[at]\<close>: the
  buffer is allocated, \<open>len\<close> bytes are copied from \<open>s\<close> and the terminator is set.
  \<open>s\<close> lists the bytes readable at the source pointer.
\<close>

definition new_line :: "char list \<Rightarrow> int \<Rightarrow> EditorLine" where
  "new_line s len =
     (let alloc = (if len + 1 < MAX_LINE_LENGTH_BUFFER then MAX_LINE_LENGTH_BUFFER
                   else len + 1);
          buf = memcpy (replicate (nat alloc) uninit_char) 0 s (nat len)
      in \<lparr>chars = buf[nat len := CHR 0x00], size_ln = len, allocated = alloc,
          hl = [], hl_revision = 0\<rparr>)"

text \<open>
  The \<open>memmove\<close> that opens a slot in \<open>E.lines\<close> and the stores into that slot are
  the list insertion.
\<close>

definition editor_insert_line :: "int \<Rightarrow> char list \<Rightarrow> int \<Rightarrow> EditorState \<Rightarrow> EditorState" where
  "editor_insert_line at s len E =
     (if at < 0 \<or> at > num_lines E then E
      else
        let E1 = E\<lparr>lines := take (nat at) (lines E) @ [new_line s len] @ drop (nat at) (lines E),
                   dirty := True\<rparr>
        in mark_lines_dirty at (num_lines E1) E1)"

definition editor_delete_line :: "int \<Rightarrow> EditorState \<Rightarrow> EditorState" where
  "editor_delete_line at E =
     (if at < 0 \<or> at \<ge> num_lines E then E
      else
        let E1 = E\<lparr>lines := take (nat at) (lines E) @ drop (nat at + 1) (lines E),
                   dirty := True\<rparr>
        in mark_lines_dirty at (num_lines E1) E1)"

text \<open>
  \<open>EditorLine *line = &E.lines[y]\<close> followed by stores through \<open>line\<close>: the
  line at row \<open>y\<close> is replaced by its updated value.
\<close>

definition line_at :: "EditorState \<Rightarrow> int \<Rightarrow> EditorLine" where
  "line_at E y = lines E ! nat y"

definition upd_line :: "int \<Rightarrow> (EditorLine \<Rightarrow> EditorLine) \<Rightarrow> EditorState \<Rightarrow> EditorState" where
  "upd_line y f E = E\<lparr>lines := (lines E)[nat y := f (line_at E y)]\<rparr>"

text \<open>
  The same for a primitive that can fault: the fault ends the run, otherwise the line is
  stored.
\<close>

definition upd_line_res ::
  "int \<Rightarrow> (EditorLine \<Rightarrow> fault + EditorLine) \<Rightarrow> EditorState \<Rightarrow> fault + EditorState" where
  "upd_line_res y f E =
     (case f (line_at E y) of
        Inl e \<Rightarrow> Inl e
      | Inr l \<Rightarrow> Inr (E\<lparr>lines := (lines E)[nat y := l]\<rparr>))"

text \<open>The next step of a run: it is taken only if the run has not faulted.\<close>

definition bind_fault :: "fault + 'a \<Rightarrow> ('a \<Rightarrow> fault + 'b) \<Rightarrow> fault + 'b" where
  "bind_fault r f = (case r of Inl e \<Rightarrow> Inl e | Inr x \<Rightarrow> f x)"


text \<open>
  The reallocation that precedes every append in the source:
  \<open>if (size + extra + 1 > allocated) { new_allocated = allocated + extra + 1; realloc chars and hl }\<close>.
\<close>

definition grow_line :: "int \<Rightarrow> EditorLine \<Rightarrow> EditorLine" where
  "grow_line extra line =
     (if size_ln line + extra + 1 > allocated line then
        let new_allocated = allocated line + extra + 1
        in line\<lparr>chars := realloc (chars line) (nat new_allocated) uninit_char,
                hl := realloc (hl line) (nat new_allocated) uninit_hl,
                allocated := new_allocated\<rparr>
      else line)"

text \<open>
  The join sequence written out in \<open>editor_delete_char\<close>, in the \<open>UNDO_SPLIT_LINE\<close>
  case of \<open>editor_undo\<close> and in the \<open>UNDO_JOIN_LINES\<close> case of \<open>editor_redo\<close>:
  grow \<open>prev\<close>, \<open>memcpy(&prev->chars[prev->size], line->chars, line->size + 1)\<close>,
  \<open>prev->size += line->size\<close>, \<open>prev->hl_revision++\<close>.
\<close>

definition join_line_buffers :: "EditorLine \<Rightarrow> EditorLine \<Rightarrow> EditorLine" where
  "join_line_buffers prev line =
     (let p1 = grow_line (size_ln line) prev
      in p1\<lparr>chars := memcpy (chars p1) (nat (size_ln p1)) (chars line) (nat (size_ln line + 1)),
            size_ln := size_ln p1 + size_ln line,
            hl_revision := hl_revision p1 + 1\<rparr>)"

text \<open>
  The split sequence of \<open>editor_insert_newline\<close> and of the \<open>UNDO_SPLIT_LINE\<close> case of
  \<open>editor_redo\<close>: \<open>line->size = x; line->chars[line->size] = '\0'; line->hl_revision++\<close>.
\<close>

definition truncate_line :: "int \<Rightarrow> EditorLine \<Rightarrow> EditorLine" where
  "truncate_line x line =
     line\<lparr>size_ln := x, chars := (chars line)[nat x := CHR 0x00],
          hl_revision := hl_revision line + 1\<rparr>"

subsection \<open>Undo and redo logs\<close>

text \<open>
  A \<open>text_content\<close> value is owned by its slot, so \<open>strdup\<close> is the identity on
  values and \<open>free_undo_action\<close> only resets the pointer to NULL.
\<close>

definition free_undo_action :: "UndoAction \<Rightarrow> UndoAction" where
  "free_undo_action action = action\<lparr>text_content := None\<rparr>"

text \<open>\<open>for (i = 0; i < MAX_UNDO_HISTORY - 1; i++) h[i] = h[i+1];\<close>\<close>

definition shift_history :: "UndoAction list \<Rightarrow> UndoAction list" where
  "shift_history h = foldl (\<lambda>h i. h[i := h ! (i + 1)]) h [0..<nat (MAX_UNDO_HISTORY - 1)]"

definition clear_redo_history :: "EditorState \<Rightarrow> EditorState" where
  "clear_redo_history E =
     E\<lparr>redo_history := foldl (\<lambda>h i. h[i := free_undo_action (h ! i)]) (redo_history E)
                           [0..<nat (redo_head E)],
       redo_head := 0\<rparr>"

definition push_undo_action :: "UndoAction \<Rightarrow> EditorState \<Rightarrow> EditorState" where
  "push_undo_action action E =
     (let E1 = (if undo_head E = MAX_UNDO_HISTORY then
                  E\<lparr>undo_history :=
                      shift_history ((undo_history E)[0 := free_undo_action (undo_history E ! 0)]),
                    undo_head := undo_head E - 1\<rparr>
                else E);
          E2 = E1\<lparr>undo_history := (undo_history E1)[nat (undo_head E1) := action],
                  undo_head := undo_head E1 + 1\<rparr>
      in clear_redo_history E2)"

definition push_redo_action :: "UndoAction \<Rightarrow> EditorState \<Rightarrow> EditorState" where
  "push_redo_action action E =
     (let E1 = (if redo_head E = MAX_UNDO_HISTORY then
                  E\<lparr>redo_history :=
                      shift_history ((redo_history E)[0 := free_undo_action (redo_history E ! 0)]),
                    redo_head := redo_head E - 1\<rparr>
                else E)
      in E1\<lparr>redo_history := (redo_history E1)[nat (redo_head E1) := action],
            redo_head := redo_head E1 + 1\<rparr>)"



subsection \<open>Character and newline editing\<close>

text \<open>
  \<open>editor_insert_char(int c)\<close> is called with a printable key code; the model takes
  the byte \<open>(char)c\<close> that the function stores. The reallocation inside
  \<open>editor_line_insert_char\<close> is taken to succeed here and in undo and redo.
\<close>

definition editor_insert_char :: "char \<Rightarrow> EditorState \<Rightarrow> fault + EditorState" where
  "editor_insert_char c E =
     (let ua = \<lparr>type_ua = UNDO_DELETE_CHAR, y_ua = cursor_y E, x_ua = cursor_x E,
                char_val = c, text_content = None, text_len = 0, num_lines_affected = 0\<rparr>;
          E1 = push_undo_action ua E;
          E2 = (if cursor_y E1 = num_lines E1
                then editor_insert_line (num_lines E1) [CHR 0x00] 0 E1 else E1)
      in case upd_line_res (cursor_y E2)
                (\<lambda>l. editor_line_insert_char True True l (cursor_x E2) c) E2 of
           Inl e \<Rightarrow> Inl e
         | Inr E3 \<Rightarrow>
             let E4 = E3\<lparr>cursor_x := cursor_x E3 + 1, dirty := True\<rparr>
             in Inr (mark_lines_dirty (cursor_y E4) (cursor_y E4) E4))"

definition editor_delete_char :: "EditorState \<Rightarrow> fault + EditorState" where
  "editor_delete_char E =
     (if cursor_y E = num_lines E then Inr E
      else if cursor_x E = 0 \<and> cursor_y E = 0 then Inr E
      else
        let E0 = mark_lines_dirty (cursor_y E) (cursor_y E) E;
            line = line_at E0 (cursor_y E0)
        in if cursor_x E0 > 0 then
             let ua = \<lparr>type_ua = UNDO_INSERT_CHAR, y_ua = cursor_y E0, x_ua = cursor_x E0 - 1,
                        char_val = chars line ! nat (cursor_x E0 - 1), text_content = None,
                        text_len = 0, num_lines_affected = 0\<rparr>;
                 E1 = push_undo_action ua E0
             in case upd_line_res (cursor_y E1)
                       (\<lambda>l. editor_line_delete_char l (cursor_x E1 - 1)) E1 of
                  Inl e \<Rightarrow> Inl e
                | Inr E2 \<Rightarrow>
                    let E3 = E2\<lparr>cursor_x := cursor_x E2 - 1\<rparr> in Inr (E3\<lparr>dirty := True\<rparr>)
           else
             let merged_line_content = cstring (chars line);
                 prev_line_size = size_ln (line_at E0 (cursor_y E0 - 1));
                 ua = \<lparr>type_ua = UNDO_JOIN_LINES, y_ua = cursor_y E0 - 1, x_ua = prev_line_size,
                        char_val = CHR 0x00, text_content = Some merged_line_content,
                        text_len = size_ln line, num_lines_affected = 0\<rparr>;
                 E1 = push_undo_action ua E0;
                 E2 = upd_line (cursor_y E1 - 1)
                        (\<lambda>prev. join_line_buffers prev (line_at E1 (cursor_y E1))) E1;
                 E3 = editor_delete_line (cursor_y E2) E2;
                 E4 = E3\<lparr>cursor_y := cursor_y E3 - 1\<rparr>;
                 E5 = mark_lines_dirty (cursor_y E4) (cursor_y E4 + 1) E4
             in Inr (E5\<lparr>dirty := True\<rparr>))"

definition editor_insert_newline :: "EditorState \<Rightarrow> EditorState" where
  "editor_insert_newline E =
     (let E3 =
            (if cursor_x E = 0 then
               let ua = \<lparr>type_ua = UNDO_INSERT_EMPTY_LINE, y_ua = cursor_y E, x_ua = 0,
                          char_val = CHR 0x00, text_content = None, text_len = 0,
                          num_lines_affected = 0\<rparr>;
                   E1 = push_undo_action ua E
               in editor_insert_line (cursor_y E1) [CHR 0x00] 0 E1
             else
               let split_off_content =
                     cstring (drop (nat (cursor_x E)) (chars (line_at E (cursor_y E))));
                   split_off_len = int (length split_off_content);
                   ua = \<lparr>type_ua = UNDO_SPLIT_LINE, y_ua = cursor_y E, x_ua = cursor_x E,
                          char_val = CHR 0x00, text_content = Some split_off_content,
                          text_len = split_off_len, num_lines_affected = 0\<rparr>;
                   E1 = push_undo_action ua E;
                   line = line_at E1 (cursor_y E1);
                   E2 = editor_insert_line (cursor_y E1 + 1)
                          (drop (nat (cursor_x E1)) (chars line)) (size_ln line - cursor_x E1) E1
               in upd_line (cursor_y E2) (truncate_line (cursor_x E2)) E2);
          E4 = E3\<lparr>cursor_y := cursor_y E3 + 1, cursor_x := 0, dirty := True\<rparr>
      in mark_lines_dirty (cursor_y E4 - 1) (cursor_y E4) E4)"

subsection \<open>Selection and block operations\<close>

text \<open>The four out-parameters \<open>*sy, *sx, *ey, *ex\<close> are returned as a tuple.\<close>

definition get_normalized_selection_coords :: "EditorState \<Rightarrow> int \<times> int \<times> int \<times> int" where
  "get_normalized_selection_coords E =
     (if visual_start_y E < cursor_y E then
        (visual_start_y E, visual_start_x E, cursor_y E, cursor_x E)
      else if visual_start_y E > cursor_y E then
        (cursor_y E, cursor_x E, visual_start_y E, visual_start_x E)
      else if visual_start_x E < cursor_x E then
        (visual_start_y E, visual_start_x E, cursor_y E, cursor_x E)
      else
        (visual_start_y E, cursor_x E, cursor_y E, visual_start_x E))"

text \<open>
  The column range of row \<open>y\<close> inside the block, as both loops of
  \<open>get_selection_content\<close> compute it.
\<close>

definition selection_cols :: "EditorState \<Rightarrow> int \<Rightarrow> int \<Rightarrow> int \<Rightarrow> int \<Rightarrow> int \<Rightarrow> int \<times> int" where
  "selection_cols E sy sx ey ex y =
     (let start_col = (if y = sy then sx else 0);
          end_col = (if y = ey then ex else size_ln (line_at E y))
      in (start_col, if end_col < start_col then start_col else end_col))"

text \<open>
  Returns the buffer (\<open>None\<close> for NULL) and the out-parameter \<open>*num_lines\<close>. The
  first loop adds up \<open>total_len\<close>, the second copies the segments and the newlines.
\<close>

definition get_selection_content ::
  "int \<Rightarrow> int \<Rightarrow> int \<Rightarrow> int \<Rightarrow> EditorState \<Rightarrow> string option \<times> int" where
  "get_selection_content sy sx ey ex E =
     (if sy < 0 \<or> sy \<ge> num_lines E \<or> ey < 0 \<or> ey \<ge> num_lines E then (None, 0)
      else
        let rows = [sy..ey];
            total_len = foldl (\<lambda>acc y.
                 let (start_col, end_col) = selection_cols E sy sx ey ex y
                 in acc + (end_col - start_col) + (if y < ey then 1 else 0)) 0 rows;
            n = int (length rows)
        in if total_len = 0 then (None, n)
           else
             (Some (foldl (\<lambda>buf y.
                 let (start_col, end_col) = selection_cols E sy sx ey ex y
                 in buf @ take (nat (end_col - start_col)) (drop (nat start_col) (chars (line_at E y)))
                        @ (if y < ey then [CHR 0x0A] else [])) [] rows), n))"

definition editor_delete_text_block :: "int \<Rightarrow> int \<Rightarrow> int \<Rightarrow> int \<Rightarrow> EditorState \<Rightarrow> EditorState" where
  "editor_delete_text_block sy sx ey ex E =
     (if sy < 0 \<or> sy \<ge> num_lines E \<or> ey < 0 \<or> ey \<ge> num_lines E then E
      else
        let E3 =
              (if sy = ey then
                 upd_line sy (\<lambda>line.
                   line\<lparr>chars := memmove (chars line) (nat sx) (nat ex) (nat (size_ln line - ex + 1)),
                        size_ln := size_ln line - (ex - sx),
                        hl_revision := hl_revision line + 1\<rparr>) E
               else
                 let E1 = upd_line sy (truncate_line sx) E;
                     end_line = line_at E1 ey;
                     rest = size_ln end_line - ex;
                     E2 = upd_line sy (\<lambda>start_line.
                            let s1 = grow_line rest start_line
                            in s1\<lparr>chars := memcpy (chars s1) (nat (size_ln s1))
                                              (drop (nat ex) (chars end_line)) (nat (rest + 1)),
                                  size_ln := size_ln s1 + rest,
                                  hl_revision := hl_revision s1 + 1\<rparr>) E1
                 in (editor_delete_line (sy + 1) ^^ nat (ey - sy)) E2)
        in mark_lines_dirty sy (num_lines E3) E3)"

text \<open>
  One pass of the \<open>while (*current_segment != '\0')\<close> loop of
  \<open>editor_insert_text_block\<close>; \<open>seg\<close> is the rest of \<open>temp_text\<close> from
  \<open>current_segment\<close> on. The result is \<open>(current_y, current_x, E)\<close> at loop exit.
\<close>

function insert_segments :: "string \<Rightarrow> int \<Rightarrow> int \<Rightarrow> EditorState \<Rightarrow> int \<times> int \<times> EditorState" where
  "insert_segments seg current_y current_x E =
     (if seg = [] then (current_y, current_x, E)
      else
        let newline_found = (CHR 0x0A \<in> set seg);
            segment = takeWhile (\<lambda>c. c \<noteq> CHR 0x0A) seg;
            segment_len = int (length segment);
            E1 = (if current_y \<ge> num_lines E then
                    editor_insert_line current_y seg segment_len E
                  else
                    upd_line current_y (\<lambda>target_line.
                      let t1 = grow_line segment_len target_line;
                          t2 = t1\<lparr>chars := memcpy
                                   (memmove (chars t1) (nat (current_x + segment_len)) (nat current_x)
                                            (nat (size_ln t1 - current_x + 1)))
                                   (nat current_x) seg (nat segment_len),
                                 size_ln := size_ln t1 + segment_len\<rparr>
                      in t2\<lparr>chars := (chars t2)[nat (size_ln t2) := CHR 0x00],
                            hl_revision := hl_revision t2 + 1\<rparr>) E);
            rest = drop (length segment) seg
        in if newline_found then insert_segments (tl rest) (current_y + 1) 0 E1
           else insert_segments rest current_y (current_x + segment_len) E1)"
  by pat_completeness auto
termination
proof (relation "measure (\<lambda>(seg, _, _, _). length seg)", goal_cases)
  case 1
  show ?case by simp
next
  case (2 seg current_y current_x E)
  then show ?case by (cases seg) (auto simp: less_Suc_eq_le)
next
  case (3 seg current_y current_x E)
  then have "takeWhile (\<lambda>c. c \<noteq> CHR 0x0A) seg = seg"
    by (simp add: takeWhile_eq_all_conv) metis
  with 3 show ?case by simp
qed

declare insert_segments.simps [simp del]

text \<open>
  \<open>text\<close> is the pointer argument: \<open>None\<close> for NULL, otherwise the C string it
  points to. \<open>original_line_remainder\<close> is \<open>None\<close> while the pointer is NULL.
\<close>

definition editor_insert_text_block ::
  "int \<Rightarrow> int \<Rightarrow> string option \<Rightarrow> int \<Rightarrow> EditorState \<Rightarrow> EditorState" where
  "editor_insert_text_block y x text text_len_arg E =
     (if text_len_arg = 0 then E
      else
        let temp_text = (case text of None \<Rightarrow> [] | Some t \<Rightarrow> cstring t);
            split = (y < num_lines E \<and> x < size_ln (line_at E y));
            original_line_remainder =
              (if split then Some (cstring (drop (nat x) (chars (line_at E y)))) else None);
            original_line_remainder_len =
              (case original_line_remainder of None \<Rightarrow> 0 | Some r \<Rightarrow> int (length r));
            E1 = (if split then upd_line y (truncate_line x) E else E);
            (current_y, current_x, E2) = insert_segments temp_text y x E1;
            E3 = (case original_line_remainder of
                    None \<Rightarrow> E2
                  | Some r \<Rightarrow>
                      if original_line_remainder_len > 0 then
                        (if current_y \<ge> num_lines E2 then
                           editor_insert_line current_y (r @ [CHR 0x00]) original_line_remainder_len E2
                         else
                           upd_line current_y (\<lambda>target_line.
                             let t1 = grow_line original_line_remainder_len target_line
                             in t1\<lparr>chars := memcpy (chars t1) (nat (size_ln t1)) (r @ [CHR 0x00])
                                              (nat (original_line_remainder_len + 1)),
                                   size_ln := size_ln t1 + original_line_remainder_len,
                                   hl_revision := hl_revision t1 + 1\<rparr>) E2)
                      else E2)
        in mark_lines_dirty y current_y E3)"

subsection \<open>Undo and redo\<close>

text \<open>
  The end column of a recorded block, computed alike in the \<open>UNDO_INSERT_BLOCK\<close> case
  of \<open>editor_undo\<close> and the \<open>UNDO_DELETE_BLOCK\<close> case of \<open>editor_redo\<close>: with one
  affected line it is \<open>sx + text_len\<close>, otherwise the length of the text after the
  last newline (the scan resets \<open>last_line_start\<close> at every newline).
\<close>

definition block_end_x :: "UndoAction \<Rightarrow> int" where
  "block_end_x ua =
     (if num_lines_affected ua = 1 then x_ua ua + text_len ua
      else
        let txt = (case text_content ua of None \<Rightarrow> [] | Some t \<Rightarrow> t);
            last_line = foldl (\<lambda>acc c. if c = CHR 0x0A then [] else acc @ [c]) [] txt
        in int (length last_line))"

text \<open>
  The replacement of a line's buffer in the \<open>UNDO_MODIFY_LINE_CASE\<close> cases:
  \<open>chars = strdup(text_content); size = text_len; allocated = text_len + 1; hl_revision++\<close>.
\<close>

definition replace_line_content :: "UndoAction \<Rightarrow> EditorLine \<Rightarrow> EditorLine" where
  "replace_line_content ua line =
     line\<lparr>chars := (case text_content ua of None \<Rightarrow> [] | Some t \<Rightarrow> t @ [CHR 0x00]),
          size_ln := text_len ua, allocated := text_len ua + 1,
          hl_revision := hl_revision line + 1\<rparr>"

text \<open>
  The second \<open>switch\<close> of \<open>editor_undo\<close> and of \<open>editor_redo\<close>: the action pushed
  onto the opposite log. \<open>oy, ox\<close> is the cursor saved on entry; \<open>cur, cur_len\<close> are
  the line content and size saved by the \<open>UNDO_MODIFY_LINE_CASE\<close> case.
\<close>

definition inverse_action :: "UndoAction \<Rightarrow> int \<Rightarrow> int \<Rightarrow> string option \<Rightarrow> int \<Rightarrow> UndoAction" where
  "inverse_action ua oy ox cur cur_len =
     (let r = \<lparr>type_ua = type_ua ua, y_ua = oy, x_ua = ox, char_val = char_val ua,
               text_content = text_content ua, text_len = text_len ua,
               num_lines_affected = num_lines_affected ua\<rparr>
      in case type_ua ua of
           UNDO_INSERT_CHAR \<Rightarrow> r\<lparr>type_ua := UNDO_DELETE_CHAR, text_content := None\<rparr>
         | UNDO_DELETE_CHAR \<Rightarrow> r\<lparr>type_ua := UNDO_INSERT_CHAR, text_content := None\<rparr>
         | UNDO_INSERT_EMPTY_LINE \<Rightarrow>
             r\<lparr>text_content := None, text_len := 0, num_lines_affected := 0\<rparr>
         | UNDO_SPLIT_LINE \<Rightarrow> r\<lparr>num_lines_affected := 0\<rparr>
         | UNDO_JOIN_LINES \<Rightarrow> r\<lparr>num_lines_affected := 0\<rparr>
         | UNDO_INSERT_BLOCK \<Rightarrow> r
         | UNDO_DELETE_BLOCK \<Rightarrow> r
         | UNDO_MODIFY_LINE_CASE \<Rightarrow>
             r\<lparr>text_content := cur, text_len := cur_len, num_lines_affected := 1\<rparr>)"

definition editor_undo :: "EditorState \<Rightarrow> fault + EditorState" where
  "editor_undo E =
     (if undo_head E = 0 then Inr (set_status_message ''Nothing to undo.'' E)
      else
        let E0 = E\<lparr>undo_head := undo_head E - 1\<rparr>;
            ua = undo_history E0 ! nat (undo_head E0);
            original_cursor_y = cursor_y E0;
            original_cursor_x = cursor_x E0;
            current_content_for_redo =
              (if type_ua ua = UNDO_MODIFY_LINE_CASE
               then Some (cstring (chars (line_at E0 (y_ua ua)))) else None);
            current_len_for_redo =
              (if type_ua ua = UNDO_MODIFY_LINE_CASE then size_ln (line_at E0 (y_ua ua)) else 0);
            E1 =
              (case type_ua ua of
                 UNDO_INSERT_CHAR \<Rightarrow>
                   (case upd_line_res (y_ua ua) (\<lambda>l. editor_line_delete_char l (x_ua ua)) E0 of
                      Inl e \<Rightarrow> Inl e
                    | Inr L \<Rightarrow> Inr (L\<lparr>cursor_y := y_ua ua, cursor_x := x_ua ua\<rparr>))
               | UNDO_DELETE_CHAR \<Rightarrow>
                   (case upd_line_res (y_ua ua) (\<lambda>l. editor_line_insert_char True True l (x_ua ua) (char_val ua)) E0 of
                      Inl e \<Rightarrow> Inl e
                    | Inr L \<Rightarrow> Inr (L\<lparr>cursor_y := y_ua ua, cursor_x := x_ua ua + 1\<rparr>))
               | UNDO_INSERT_EMPTY_LINE \<Rightarrow>
                   Inr
                    ((let D = (editor_delete_line (y_ua ua) E0)\<lparr>cursor_y := y_ua ua, cursor_x := 0\<rparr>
                    in if num_lines D = 0 then
                         (editor_insert_line 0 [CHR 0x00] 0 D)\<lparr>cursor_y := 0, cursor_x := 0\<rparr>
                       else if cursor_y D \<ge> num_lines D then D\<lparr>cursor_y := num_lines D - 1\<rparr>
                       else D))
               | UNDO_SPLIT_LINE \<Rightarrow>
                   Inr
                    ((let J = upd_line (y_ua ua)
                              (\<lambda>line_to_join. join_line_buffers line_to_join (line_at E0 (y_ua ua + 1))) E0
                    in (editor_delete_line (y_ua ua + 1) J)\<lparr>cursor_y := y_ua ua, cursor_x := x_ua ua\<rparr>))
               | UNDO_JOIN_LINES \<Rightarrow>
                   Inr
                    ((let I = editor_insert_line (y_ua ua + 1)
                              (case text_content ua of None \<Rightarrow> [] | Some t \<Rightarrow> t @ [CHR 0x00])
                              (text_len ua) E0
                    in (upd_line (y_ua ua) (truncate_line (x_ua ua)) I)
                         \<lparr>cursor_y := y_ua ua + 1, cursor_x := 0\<rparr>))
               | UNDO_INSERT_BLOCK \<Rightarrow>
                   Inr
                    ((let sy = y_ua ua; sx = x_ua ua;
                        ey = sy + num_lines_affected ua - 1;
                        ex = block_end_x ua
                    in (editor_delete_text_block sy sx ey ex E0)\<lparr>cursor_y := sy, cursor_x := sx\<rparr>))
               | UNDO_DELETE_BLOCK \<Rightarrow>
                   Inr
                    ((editor_insert_text_block (y_ua ua) (x_ua ua) (text_content ua) (text_len ua) E0)
                     \<lparr>cursor_y := y_ua ua, cursor_x := x_ua ua\<rparr>)
               | UNDO_MODIFY_LINE_CASE \<Rightarrow>
                   Inr
                    ((upd_line (y_ua ua) (replace_line_content ua) E0)
                     \<lparr>cursor_y := y_ua ua, cursor_x := x_ua ua\<rparr>));
            redo_ua = inverse_action ua original_cursor_y original_cursor_x
                        current_content_for_redo current_len_for_redo
        in case E1 of
             Inl e \<Rightarrow> Inl e
           | Inr E1 \<Rightarrow>
               let E2 = E1\<lparr>dirty := True\<rparr>;
                   E3 = mark_lines_dirty 0 (num_lines E2 - 1) E2;
                   E4 = set_status_message ''Undo successful.'' E3
               in Inr (push_redo_action redo_ua E4))"

definition editor_redo :: "EditorState \<Rightarrow> fault + EditorState" where
  "editor_redo E =
     (if redo_head E = 0 then Inr (set_status_message ''Nothing to redo.'' E)
      else
        let E0 = E\<lparr>redo_head := redo_head E - 1\<rparr>;
            ra = redo_history E0 ! nat (redo_head E0);
            original_cursor_y = cursor_y E0;
            original_cursor_x = cursor_x E0;
            current_content_for_undo =
              (if type_ua ra = UNDO_MODIFY_LINE_CASE
               then Some (cstring (chars (line_at E0 (y_ua ra)))) else None);
            current_len_for_undo =
              (if type_ua ra = UNDO_MODIFY_LINE_CASE then size_ln (line_at E0 (y_ua ra)) else 0);
            E1 =
              (case type_ua ra of
                 UNDO_INSERT_CHAR \<Rightarrow>
                   (case upd_line_res (y_ua ra) (\<lambda>l. editor_line_insert_char True True l (x_ua ra) (char_val ra)) E0 of
                      Inl e \<Rightarrow> Inl e
                    | Inr L \<Rightarrow> Inr (L\<lparr>cursor_y := y_ua ra, cursor_x := x_ua ra + 1\<rparr>))
               | UNDO_DELETE_CHAR \<Rightarrow>
                   (case upd_line_res (y_ua ra) (\<lambda>l. editor_line_delete_char l (x_ua ra)) E0 of
                      Inl e \<Rightarrow> Inl e
                    | Inr L \<Rightarrow> Inr (L\<lparr>cursor_y := y_ua ra, cursor_x := x_ua ra\<rparr>))
               | UNDO_INSERT_EMPTY_LINE \<Rightarrow>
                   Inr
                    ((editor_insert_line (y_ua ra) [CHR 0x00] 0 E0)
                     \<lparr>cursor_y := y_ua ra + 1, cursor_x := 0\<rparr>)
               | UNDO_SPLIT_LINE \<Rightarrow>
                   Inr
                    ((let line = line_at E0 (y_ua ra);
                        I = editor_insert_line (y_ua ra + 1) (drop (nat (x_ua ra)) (chars line))
                              (size_ln line - x_ua ra) E0
                    in (upd_line (y_ua ra) (truncate_line (x_ua ra)) I)
                         \<lparr>cursor_y := y_ua ra + 1, cursor_x := 0\<rparr>))
               | UNDO_JOIN_LINES \<Rightarrow>
                   Inr
                    ((let C = E0\<lparr>cursor_x := size_ln (line_at E0 (y_ua ra))\<rparr>;
                        J = upd_line (y_ua ra)
                              (\<lambda>prev_line. join_line_buffers prev_line (line_at C (y_ua ra + 1))) C
                    in (editor_delete_line (y_ua ra + 1) J)\<lparr>cursor_y := y_ua ra, cursor_x := x_ua ra\<rparr>))
               | UNDO_INSERT_BLOCK \<Rightarrow>
                   Inr
                    ((editor_insert_text_block (y_ua ra) (x_ua ra) (text_content ra) (text_len ra) E0)
                     \<lparr>cursor_y := y_ua ra, cursor_x := x_ua ra\<rparr>)
               | UNDO_DELETE_BLOCK \<Rightarrow>
                   Inr
                    ((let sy = y_ua ra; sx = x_ua ra;
                        ey = sy + num_lines_affected ra - 1;
                        ex = block_end_x ra
                    in (editor_delete_text_block sy sx ey ex E0)\<lparr>cursor_y := sy, cursor_x := sx\<rparr>))
               | UNDO_MODIFY_LINE_CASE \<Rightarrow>
                   Inr
                    ((upd_line (y_ua ra) (replace_line_content ra) E0)
                     \<lparr>cursor_y := y_ua ra, cursor_x := x_ua ra\<rparr>));
            undo_ra = inverse_action ra original_cursor_y original_cursor_x
                        current_content_for_undo current_len_for_undo
        in case E1 of
             Inl e \<Rightarrow> Inl e
           | Inr E1 \<Rightarrow>
               let E2 = E1\<lparr>dirty := True\<rparr>;
                   E3 = mark_lines_dirty 0 (num_lines E2 - 1) E2;
                   E4 = set_status_message ''Redo successful.'' E3
               in Inr (push_undo_action undo_ra E4))"

subsection \<open>Highlighter\<close>

text \<open>The \<open>ctype.h\<close> predicates of the C locale, on bytes.\<close>

definition isdigit :: "char \<Rightarrow> bool" where
  "isdigit c \<longleftrightarrow> c \<in> set ''0123456789''"

definition isxdigit :: "char \<Rightarrow> bool" where
  "isxdigit c \<longleftrightarrow> c \<in> set ''0123456789abcdefABCDEF''"

definition isupper :: "char \<Rightarrow> bool" where
  "isupper c \<longleftrightarrow> c \<in> set ''ABCDEFGHIJKLMNOPQRSTUVWXYZ''"

definition islower :: "char \<Rightarrow> bool" where
  "islower c \<longleftrightarrow> c \<in> set ''abcdefghijklmnopqrstuvwxyz''"

definition isalnum :: "char \<Rightarrow> bool" where
  "isalnum c \<longleftrightarrow> isupper c \<or> islower c \<or> isdigit c"

definition isspace :: "char \<Rightarrow> bool" where
  "isspace c \<longleftrightarrow> c \<in> set [CHR 0x20, CHR 0x09, CHR 0x0A, CHR 0x0B, CHR 0x0C, CHR 0x0D]"

definition tolower :: "char \<Rightarrow> char" where
  "tolower c = (if isupper c then char_of (of_char c + (32 :: nat)) else c)"

definition is_operator_char :: "char \<Rightarrow> bool" where
  "is_operator_char c \<longleftrightarrow> c \<in> set ''+-*/%=<>!&|^~?:;,.()[]{}''"

definition is_double_operator :: "char list \<Rightarrow> nat \<Rightarrow> bool" where
  "is_double_operator str index =
     (if str ! (index + 1) = CHR 0x00 then False
      else
        let c1 = str ! index; c2 = str ! (index + 1)
        in (c1 = CHR ''='' \<and> c2 = CHR ''='') \<or> (c1 = CHR ''!'' \<and> c2 = CHR ''='') \<or>
           (c1 = CHR ''&'' \<and> c2 = CHR ''&'') \<or> (c1 = CHR ''|'' \<and> c2 = CHR ''|'') \<or>
           (c1 = CHR ''+'' \<and> c2 = CHR ''+'') \<or> (c1 = CHR ''-'' \<and> c2 = CHR ''-'') \<or>
           (c1 = CHR ''<'' \<and> c2 = CHR ''='') \<or> (c1 = CHR ''>'' \<and> c2 = CHR ''='') \<or>
           (c1 = CHR ''<'' \<and> c2 = CHR ''<'') \<or> (c1 = CHR ''>'' \<and> c2 = CHR ''>'') \<or>
           (c1 = CHR ''+'' \<and> c2 = CHR ''='') \<or> (c1 = CHR ''-'' \<and> c2 = CHR ''='') \<or>
           (c1 = CHR ''*'' \<and> c2 = CHR ''='') \<or> (c1 = CHR ''/'' \<and> c2 = CHR ''='') \<or>
           (c1 = CHR ''%'' \<and> c2 = CHR ''='') \<or> (c1 = CHR ''&'' \<and> c2 = CHR ''='') \<or>
           (c1 = CHR ''|'' \<and> c2 = CHR ''='') \<or> (c1 = CHR ''^'' \<and> c2 = CHR ''='') \<or>
           (c1 = CHR ''-'' \<and> c2 = CHR ''>''))"

text \<open>\<open>for (k = a; k < b; k++) hl[k] = t;\<close>\<close>

definition fill_hl :: "HighlightType list \<Rightarrow> nat \<Rightarrow> nat \<Rightarrow> HighlightType \<Rightarrow> HighlightType list" where
  "fill_hl h a b t = foldl (\<lambda>h k. h[k := t]) h [a..<b]"

text \<open>
  The numeric-literal \<open>while\<close> loop: it tags and advances \<open>i\<close> while the character
  belongs to the literal, and returns \<open>i\<close> at exit with the tags.
\<close>

definition number_char :: "char list \<Rightarrow> nat \<Rightarrow> nat \<Rightarrow> bool" where
  "number_char cs start_num i \<longleftrightarrow>
     isdigit (cs ! i) \<or> cs ! i = CHR ''.'' \<or> tolower (cs ! i) = CHR ''x'' \<or>
     (i > start_num \<and> tolower (cs ! (i - 1)) = CHR ''x'' \<and> isxdigit (cs ! i)) \<or>
     tolower (cs ! i) = CHR ''e'' \<or> tolower (cs ! i) = CHR ''f'' \<or>
     (i > start_num \<and> (cs ! (i - 1) = CHR ''e'' \<or> cs ! (i - 1) = CHR ''E'')
        \<and> (cs ! i = CHR ''+'' \<or> cs ! i = CHR ''-''))"

function scan_number ::
  "char list \<Rightarrow> nat \<Rightarrow> nat \<Rightarrow> nat \<Rightarrow> HighlightType list \<Rightarrow> nat \<times> HighlightType list" where
  "scan_number cs n start_num i h =
     (if i < n \<and> number_char cs start_num i
      then scan_number cs n start_num (i + 1) (h[i := HL_NUMBER]) else (i, h))"
  by pat_completeness auto
termination
  by (relation "measure (\<lambda>(cs, n, start_num, i, h). n - i)") auto

declare scan_number.simps [simp del]

text \<open>The word \<open>while\<close> loop: returns \<open>i\<close> at exit.\<close>

function scan_word :: "char list \<Rightarrow> nat \<Rightarrow> nat \<Rightarrow> nat" where
  "scan_word cs n i =
     (if i < n \<and> (isalnum (cs ! i) \<or> cs ! i = CHR ''_'') then scan_word cs n (i + 1) else i)"
  by pat_completeness auto
termination
  by (relation "measure (\<lambda>(cs, n, i). n - i)") auto

declare scan_word.simps [simp del]

text \<open>
  The local variables of the main loop of \<open>update_highlighting\<close>. \<open>idx\<close> is the loop
  counter \<open>i\<close>, \<open>tags\<close> the array \<open>line->hl\<close>, \<open>stopped\<close> records a \<open>break\<close>.
\<close>

record hl_state =
  idx :: nat
  tags :: "HighlightType list"
  in_multiline_comment_this_line :: bool
  in_string :: bool
  string_quote_char :: char
  first_word_on_line_highlighted :: bool
  stopped :: bool

text \<open>
  The body of the main loop, up to but excluding the \<open>i++\<close> of the \<open>for\<close>. The
  backward scan over \<open>prev_char_idx\<close> finds whether every character before the word
  is white space. The closing loop of the word branch stores \<open>HL_NORMAL\<close> only where
  the tag is \<open>HL_NORMAL\<close> already and changes nothing.
\<close>

definition hl_body :: "char list \<Rightarrow> nat \<Rightarrow> hl_state \<Rightarrow> hl_state" where
  "hl_body cs n st =
     (let i = idx st; c = cs ! i in
      if in_multiline_comment_this_line st then
        (let st1 = st\<lparr>tags := (tags st)[i := HL_COMMENT]\<rparr>
         in if c = CHR ''*'' \<and> i + 1 < n \<and> cs ! (i + 1) = CHR ''/'' then
              st1\<lparr>tags := (tags st1)[i + 1 := HL_COMMENT],
                  in_multiline_comment_this_line := False, idx := i + 1\<rparr>
            else st1)
      else if in_string st then
        (let st1 = st\<lparr>tags := (tags st)[i := HL_STRING]\<rparr>
         in if c = CHR 0x5C \<and> i + 1 < n then
              st1\<lparr>tags := (tags st1)[i + 1 := HL_STRING], idx := i + 1\<rparr>
            else if c = string_quote_char st then
              st1\<lparr>in_string := False, string_quote_char := CHR 0x00\<rparr>
            else st1)
      else if c = CHR 0x27 \<or> c = CHR 0x22 \<or> c = CHR 0x60 then
        st\<lparr>in_string := True, string_quote_char := c, tags := (tags st)[i := HL_STRING]\<rparr>
      else if c = CHR ''/'' \<and> i + 1 < n \<and> cs ! (i + 1) = CHR ''/'' then
        st\<lparr>tags := fill_hl (tags st) i n HL_COMMENT, stopped := True\<rparr>
      else if c = CHR ''#'' then
        st\<lparr>tags := fill_hl (tags st) i n HL_COMMENT, stopped := True\<rparr>
      else if c = CHR ''/'' \<and> i + 1 < n \<and> cs ! (i + 1) = CHR ''*'' then
        st\<lparr>tags := fill_hl (tags st) i n HL_COMMENT,
            in_multiline_comment_this_line := True, idx := i + 1\<rparr>
      else if isdigit c then
        (let (i1, h1) = scan_number cs n i i (tags st)
         in st\<lparr>tags := h1, idx := i1 - 1\<rparr>)
      else if is_double_operator cs i then
        st\<lparr>tags := (tags st)[i := HL_OPERATOR, i + 1 := HL_OPERATOR], idx := i + 1\<rparr>
      else if is_operator_char c then
        st\<lparr>tags := (tags st)[i := HL_OPERATOR]\<rparr>
      else if isalnum c \<or> c = CHR ''_'' then
        (let i1 = scan_word cs n i;
             only_whitespace_before = list_all isspace (take i cs);
             st1 = (if \<not> first_word_on_line_highlighted st \<and> only_whitespace_before then
                      st\<lparr>tags := fill_hl (tags st) i i1 HL_KEYWORD,
                          first_word_on_line_highlighted := True\<rparr>
                    else st)
         in st1\<lparr>idx := i1 - 1\<rparr>)
      else st)"

text \<open>
  The main \<open>for\<close> loop: run the body, leave on \<open>break\<close>, otherwise \<open>i++\<close> and
  test again.
\<close>

function hl_loop :: "char list \<Rightarrow> nat \<Rightarrow> hl_state \<Rightarrow> hl_state" where
  "hl_loop cs n st =
     (if idx st < n then
        (let st1 = hl_body cs n st
         in if stopped st1 then st1 else hl_loop cs n (st1\<lparr>idx := idx st1 + 1\<rparr>))
      else st)"
  by pat_completeness auto
termination
proof (relation "measure (\<lambda>(cs, n, st). n - idx st)", goal_cases)
  case 1
  show ?case by simp
next
  case (2 cs n st st1)
  have word_ge: "i \<le> scan_word cs n i" for i
    by (induction cs n i rule: scan_word.induct) (subst scan_word.simps, auto)
  have word_gt: "i < scan_word cs n i" if "i < n" "isalnum (cs ! i) \<or> cs ! i = CHR ''_''" for i
    using that word_ge [of "i + 1"] by (subst scan_word.simps) auto
  have num_ge: "i \<le> fst (scan_number cs n s i h)" for s i h
    by (induction cs n s i h rule: scan_number.induct) (subst scan_number.simps, auto)
  have num_gt: "i < fst (scan_number cs n i i h)" if "i < n" "isdigit (cs ! i)" for i h
    using that num_ge [of "i + 1" i "h[i := HL_NUMBER]"]
    by (subst scan_number.simps) (auto simp: number_char_def)
  have lt: "idx st < n" using 2 by simp
  have "idx st \<le> idx (hl_body cs n st)"
  proof (cases "in_multiline_comment_this_line st")
    case True
    then show ?thesis by (simp add: hl_body_def Let_def)
  next
    case nc: False
    show ?thesis
    proof (cases "in_string st")
      case True
      with nc show ?thesis by (simp add: hl_body_def Let_def)
    next
      case ns: False
      show ?thesis
      proof (cases "isdigit (cs ! idx st)")
        case True
        with nc ns lt num_gt [of "idx st" "tags st"] show ?thesis
          by (auto simp add: hl_body_def Let_def split: prod.splits)
      next
        case nd: False
        show ?thesis
        proof (cases "isalnum (cs ! idx st) \<or> cs ! idx st = CHR ''_''")
          case True
          from word_gt [of "idx st"] lt True
          have "idx st \<le> scan_word cs n (idx st) - 1" by simp
          with nc ns nd lt True show ?thesis
            by (simp add: hl_body_def Let_def)
        next
          case False
          with nc ns nd show ?thesis
            by (simp add: hl_body_def Let_def)
        qed
      qed
    qed
  qed
  with 2 show ?case by simp
qed

declare hl_loop.simps [simp del]

text \<open>
  \<open>update_highlighting(line)\<close> reads and writes the line and the two globals
  \<open>E.is_code_file\<close> and \<open>E.in_multiline_comment_global\<close>; it returns the line and the
  state.
\<close>

definition update_highlighting :: "EditorLine \<Rightarrow> EditorState \<Rightarrow> EditorLine \<times> EditorState" where
  "update_highlighting line E =
     (let line0 = (if hl line = [] \<or> allocated line < size_ln line + 1
                   then line\<lparr>hl := replicate (nat (allocated line)) uninit_hl\<rparr> else line);
          n = nat (size_ln line0);
          cleared = fill_hl (hl line0) 0 n HL_NORMAL
      in if \<not> is_code_file E then
           (line0\<lparr>hl := cleared, hl_revision := hl_revision line0 + 1\<rparr>,
            E\<lparr>in_multiline_comment_global := False\<rparr>)
         else
           let st = hl_loop (chars line0) n
                      \<lparr>idx = 0, tags = cleared,
                       in_multiline_comment_this_line = in_multiline_comment_global E,
                       in_string = False, string_quote_char = CHR 0x00,
                       first_word_on_line_highlighted = False, stopped = False\<rparr>
           in (line0\<lparr>hl := tags st, hl_revision := hl_revision line0 + 1\<rparr>,
               E\<lparr>in_multiline_comment_global := in_multiline_comment_this_line st\<rparr>))"

text \<open>\<open>update_highlighting(&E.lines[i])\<close>\<close>

definition highlight_row :: "nat \<Rightarrow> EditorState \<Rightarrow> EditorState" where
  "highlight_row i E =
     (let (line1, E1) = update_highlighting (lines E ! i) E
      in E1\<lparr>lines := (lines E1)[i := line1]\<rparr>)"

text \<open>
  What \<open>editor_refresh_screen\<close> does to the editor state (the drawing apart): the
  window height is computed, the window is scrolled to the cursor row, the global
  comment flag is reset, the rows above the window are highlighted, then each row of
  the window is highlighted by \<open>editor_draw_line_highlighted\<close>, rows beyond
  \<open>num_lines\<close> skipped, and the dirty range is cleared.
\<close>

definition editor_refresh_screen :: "EditorState \<Rightarrow> EditorState" where
  "editor_refresh_screen E =
     (let E0 = E\<lparr>screen_rows :=
                    total_screen_rows E - HINT_ROWS - 1 - SUGGESTION_ROWS - 2 * BORDER_WIDTH\<rparr>;
          E1 = (if cursor_y E0 < scroll_y E0 then E0\<lparr>scroll_y := cursor_y E0\<rparr> else E0);
          E2 = (if cursor_y E1 \<ge> scroll_y E1 + screen_rows E1
                then E1\<lparr>scroll_y := cursor_y E1 - screen_rows E1 + 1\<rparr> else E1);
          E3 = E2\<lparr>in_multiline_comment_global := False\<rparr>;
          E4 = foldl (\<lambda>E i. if int i < num_lines E then highlight_row i E else E)
                 E3 [0..<nat (scroll_y E3)];
          E5 = foldl (\<lambda>E y. let file_line_idx = int y + scroll_y E
                              in if file_line_idx < num_lines E
                                 then highlight_row (nat file_line_idx) E else E)
                 E4 [0..<nat (screen_rows E4)]
      in E5\<lparr>dirty_line_start := -1, dirty_line_end := -1\<rparr>)"

text \<open>
  The highlighting of one refresh whose window ends before row \<open>n\<close>: the global
  flag is reset, then the rows \<open>0\<close> to \<open>n - 1\<close> are highlighted in order, rows
  beyond \<open>num_lines\<close> skipped.
\<close>

definition highlight_from_top :: "nat \<Rightarrow> EditorState \<Rightarrow> EditorState" where
  "highlight_from_top n E =
     foldl (\<lambda>E i. if int i < num_lines E then highlight_row i E else E)
           (E\<lparr>in_multiline_comment_global := False\<rparr>) [0..<n]"

subsection \<open>Cursor movement\<close>

definition editor_move_cursor :: "int \<Rightarrow> EditorState \<Rightarrow> EditorState" where
  "editor_move_cursor key E =
     (let E0 = mark_lines_dirty (cursor_y E) (cursor_y E) E;
          has_line = (cursor_y E0 < num_lines E0);
          line = line_at E0 (cursor_y E0);
          E1 = (if key = KEY_LEFT then
                  (if cursor_x E0 > 0 then E0\<lparr>cursor_x := cursor_x E0 - 1\<rparr>
                   else if cursor_y E0 > 0 then
                     E0\<lparr>cursor_y := cursor_y E0 - 1,
                        cursor_x := size_ln (line_at E0 (cursor_y E0 - 1))\<rparr>
                   else E0)
                else if key = KEY_RIGHT then
                  (if has_line \<and> cursor_x E0 < size_ln line then E0\<lparr>cursor_x := cursor_x E0 + 1\<rparr>
                   else if has_line \<and> cursor_x E0 = size_ln line \<and> cursor_y E0 < num_lines E0 - 1
                   then E0\<lparr>cursor_y := cursor_y E0 + 1, cursor_x := 0\<rparr>
                   else E0)
                else if key = KEY_UP then
                  (if cursor_y E0 > 0 then E0\<lparr>cursor_y := cursor_y E0 - 1\<rparr> else E0)
                else if key = KEY_DOWN then
                  (if cursor_y E0 < num_lines E0 then E0\<lparr>cursor_y := cursor_y E0 + 1\<rparr> else E0)
                else E0);
          line_len = (if cursor_y E1 \<ge> num_lines E1 then 0 else size_ln (line_at E1 (cursor_y E1)));
          E2 = (if cursor_x E1 > line_len then E1\<lparr>cursor_x := line_len\<rparr> else E1)
      in mark_lines_dirty (cursor_y E2) (cursor_y E2) E2)"

subsection \<open>Command sequence machine\<close>

text \<open>\<open>isprint\<close> of the C locale, on the \<open>int\<close> key code.\<close>

definition isprint :: "int \<Rightarrow> bool" where
  "isprint key \<longleftrightarrow> 32 \<le> key \<and> key \<le> 126"

definition reset_command_mode :: "EditorState \<Rightarrow> EditorState" where
  "reset_command_mode E =
     set_status_message []
       (E\<lparr>cmd := (cmd E)\<lparr>active := False, length_cmd := 0,
                         sequence := (sequence (cmd E))[0 := CHR 0x00],
                         last_key_time := 0, show_help := False\<rparr>,
          creative_mode := False\<rparr>)"

text \<open>
  \<open>now\<close> is the value of \<open>time(NULL)\<close> during the call. The prompt-driven
  \<open>enter_creative_mode\<close>, \<open>autocomplete_command\<close> and the command dispatcher
  \<open>execute_command_sequence\<close> are parameters: they talk to the terminal and the file
  system. The time-out test \<open>time(NULL) - last_key_time > COMMAND_TIMEOUT_MS / 1000.0\<close>
  is written on integers, both sides scaled by 1000.
\<close>

definition handle_command_mode_input ::
  "(EditorState \<Rightarrow> EditorState) \<Rightarrow> (EditorState \<Rightarrow> EditorState) \<Rightarrow> (EditorState \<Rightarrow> EditorState)
   \<Rightarrow> int \<Rightarrow> int \<Rightarrow> EditorState \<Rightarrow> EditorState" where
  "handle_command_mode_input enter_creative_mode autocomplete_command execute_command_sequence
     now key E =
     (if (now - last_key_time (cmd E)) * 1000 > COMMAND_TIMEOUT_MS then
        reset_command_mode (set_status_message ''Command timeout.'' E)
      else if key = 58 \<and> length_cmd (cmd E) > 0 then enter_creative_mode E
      else if key = 9 then
        (let E1 = autocomplete_command E in E1\<lparr>cmd := (cmd E1)\<lparr>last_key_time := now\<rparr>\<rparr>)
      else if isprint key \<and> length_cmd (cmd E) < MAX_COMMAND_SEQUENCE_LENGTH - 1 then
        (let len = length_cmd (cmd E);
             seq = (sequence (cmd E))[nat len := char_of key, nat (len + 1) := CHR 0x00]
         in E\<lparr>cmd := (cmd E)\<lparr>sequence := seq, length_cmd := len + 1, last_key_time := now\<rparr>\<rparr>)
      else if key = KEY_ENTER \<or> key = 10 then
        reset_command_mode (execute_command_sequence E)
      else if key = KEY_BACKSPACE \<or> key = 127 then
        (if length_cmd (cmd E) > 0 then
           let len = length_cmd (cmd E) - 1;
               seq = (sequence (cmd E))[nat len := CHR 0x00];
               E1 = E\<lparr>cmd := (cmd E)\<lparr>length_cmd := len, sequence := seq, last_key_time := now\<rparr>\<rparr>
           in set_status_message
                (''Command Mode: '' @ cstring seq @ '' (Tab: suggestions, Esc: cancel)'') E1
         else reset_command_mode E)
      else if key = 27 then
        reset_command_mode (set_status_message ''Command mode cancelled.'' E)
      else
        (let E1 = set_status_message
                    (''Command Mode: '' @ cstring (sequence (cmd E))
                       @ '' (Invalid key or sequence too long)'') E
         in E1\<lparr>cmd := (cmd E1)\<lparr>last_key_time := now\<rparr>\<rparr>))"

text \<open>The \<open>CTRL('\\')\<close> case of \<open>editor_process_keypress\<close>: command mode is entered.\<close>

definition enter_command_mode :: "int \<Rightarrow> EditorState \<Rightarrow> EditorState" where
  "enter_command_mode now E =
     set_status_message ''Command Mode: (type command sequence)''
       (E\<lparr>cmd := (cmd E)\<lparr>active := True, length_cmd := 0,
                         sequence := (sequence (cmd E))[0 := CHR 0x00],
                         last_key_time := now\<rparr>\<rparr>)"

subsection \<open>The status-line prompt\<close>

text \<open>
  The loop of \<open>editor_prompt\<close>: before each key the status line shows the prompt with
  the text typed so far and the screen is refreshed. \<open>buffer\<close> is the C string in the
  caller's buffer, so the counter \<open>i\<close> of the source is its length. The loop ends on
  Enter after a non-empty answer and on Escape (the result \<open>NULL\<close> is \<open>None\<close>),
  and the flags that \<open>reset_command_mode\<close> cleared are restored. The loop reads keys
  for as long as the user types; the key list running out is the prompt still waiting
  for a key, the value \<open>None\<close> of the model.
\<close>

fun prompt_loop ::
  "string \<Rightarrow> int \<Rightarrow> bool \<Rightarrow> bool \<Rightarrow> string \<Rightarrow> EditorState \<Rightarrow> int list
   \<Rightarrow> (string option \<times> EditorState) option" where
  "prompt_loop prompt_msg buf_size was_cmd_active was_creative_mode buffer E [] = None"
| "prompt_loop prompt_msg buf_size was_cmd_active was_creative_mode buffer E (c # keys) =
     (let E1 = editor_refresh_screen (set_status_message (prompt_msg @ buffer) E);
          restore = (\<lambda>E. let Ea = (if was_cmd_active then E\<lparr>cmd := (cmd E)\<lparr>active := True\<rparr>\<rparr> else E)
                          in if was_creative_mode then Ea\<lparr>creative_mode := True\<rparr> else Ea)
      in if c = KEY_ENTER \<or> c = 10 then
           (if buffer \<noteq> [] then Some (Some buffer, restore E1)
            else prompt_loop prompt_msg buf_size was_cmd_active was_creative_mode buffer
                   (set_status_message ''Input cannot be empty!'' E1) keys)
         else if c = 27 then Some (None, restore (set_status_message ''Cancelled.'' E1))
         else if c = KEY_BACKSPACE \<or> c = 127 then
           prompt_loop prompt_msg buf_size was_cmd_active was_creative_mode (butlast buffer) E1 keys
         else if isprint c \<and> int (length buffer) < buf_size - 1 then
           prompt_loop prompt_msg buf_size was_cmd_active was_creative_mode
             (buffer @ [char_of c]) E1 keys
         else prompt_loop prompt_msg buf_size was_cmd_active was_creative_mode buffer E1 keys)"

text \<open>\<open>prompt_msg\<close> is the format string without its final \<open>%s\<close>.\<close>

definition editor_prompt ::
  "string \<Rightarrow> int \<Rightarrow> int list \<Rightarrow> EditorState \<Rightarrow> (string option \<times> EditorState) option" where
  "editor_prompt prompt_msg buf_size keys E =
     prompt_loop prompt_msg buf_size (active (cmd E)) (creative_mode E) []
       (reset_command_mode E) keys"

definition editor_set_file_type :: "bool \<Rightarrow> EditorState \<Rightarrow> EditorState" where
  "editor_set_file_type is_code E =
     (let E1 = E\<lparr>is_code_file := is_code\<rparr> in mark_lines_dirty 0 (num_lines E1 - 1) E1)"

text \<open>\<open>result[0]\<close> of a non-NULL answer is its first character, the answer being non-empty.\<close>

definition prompt_file_type :: "int list \<Rightarrow> EditorState \<Rightarrow> EditorState option" where
  "prompt_file_type keys E =
     (case editor_prompt ''Is this a code file (C/Python/JS etc.) or plain text? (C/T): ''
             MAX_STATUS_MESSAGE_LENGTH keys E of
        None \<Rightarrow> None
      | Some (result, E1) \<Rightarrow>
          Some (if (case result of Some (r # rs) \<Rightarrow> tolower r = CHR ''c'' | _ \<Rightarrow> False)
                then set_status_message ''File type set to: Code.'' (editor_set_file_type True E1)
                else set_status_message ''File type set to: Text.'' (editor_set_file_type False E1)))"

subsection \<open>Initial state and loading\<close>

text \<open>
  \<open>E\<close> is a global, so it starts zeroed; \<open>init_editor\<close> then sets the fields
  below (the terminal set-up apart). \<open>rows\<close> is the height of the terminal.
\<close>

definition zero_action :: UndoAction where
  "zero_action = \<lparr>type_ua = UNDO_INSERT_CHAR, y_ua = 0, x_ua = 0, char_val = CHR 0x00,
                  text_content = None, text_len = 0, num_lines_affected = 0\<rparr>"

definition init_undo_redo :: "EditorState \<Rightarrow> EditorState" where
  "init_undo_redo E =
     E\<lparr>undo_history := foldl (\<lambda>h i. h[i := free_undo_action (h ! i)]) (undo_history E)
                           [0..<nat (undo_head E)],
       redo_history := foldl (\<lambda>h i. h[i := free_undo_action (h ! i)]) (redo_history E)
                           [0..<nat (redo_head E)],
       undo_head := 0, redo_head := 0\<rparr>"

definition init_editor :: "int \<Rightarrow> EditorState" where
  "init_editor rows =
     set_status_message ''Help: Ctrl+S = Save | Ctrl+O = Open | Ctrl+Q = Quit | Ctrl+H = Help''
       (init_undo_redo
         \<lparr>lines = [], cursor_x = 0, cursor_y = 0, scroll_y = 0, total_screen_rows = rows,
          screen_rows = rows - HINT_ROWS - 1 - SUGGESTION_ROWS - 2 * BORDER_WIDTH,
          dirty = False, status_message = [],
          in_multiline_comment_global = False, dirty_line_start = -1, dirty_line_end = -1,
          cmd = \<lparr>sequence = replicate (nat MAX_COMMAND_SEQUENCE_LENGTH) (CHR 0x00), length_cmd = 0,
                 last_key_time = 0, active = False, show_help = False\<rparr>,
          creative_mode = False, is_code_file = False, visual_mode = False,
          visual_start_x = 0, visual_start_y = 0,
          undo_history = replicate (nat MAX_UNDO_HISTORY) zero_action, undo_head = 0,
          redo_history = replicate (nat MAX_UNDO_HISTORY) zero_action, redo_head = 0\<rparr>)"

text \<open>
  \<open>editor_load_file\<close> for a file that opens: \<open>ls\<close> are the lines that \<open>getline\<close>
  reads (line ends stripped) and \<open>keys\<close> are the keys typed into the prompt of
  \<open>prompt_file_type\<close>. The old document is dropped, cursor and scroll position are
  reset, each line is appended, then \<open>E.dirty = false\<close>, the dirty range, the prompt
  with its screen refreshes, and \<open>init_undo_redo\<close>. The status text
  \<open>File loaded: ...\<close> is replaced by the prompt before the screen is drawn and is not
  modelled, nor are the file name and the recent-files list.
\<close>

definition editor_load_file :: "string list \<Rightarrow> int list \<Rightarrow> EditorState \<Rightarrow> EditorState option" where
  "editor_load_file ls keys E =
     (let E0 = E\<lparr>lines := [], cursor_x := 0, cursor_y := 0, scroll_y := 0\<rparr>;
          E1 = foldl (\<lambda>E l. editor_insert_line (num_lines E) (l @ [CHR 0x00]) (int (length l)) E)
                 E0 ls;
          E2 = E1\<lparr>dirty := False\<rparr>;
          E3 = mark_lines_dirty 0 (num_lines E2 - 1) E2
      in map_option init_undo_redo (prompt_file_type keys E3))"

text \<open>
  One turn of the main loop, \<open>editor_refresh_screen(); editor_process_keypress();\<close>,
  for a key whose handler is \<open>f\<close>.
\<close>

definition main_loop_turn ::
  "(EditorState \<Rightarrow> fault + EditorState) \<Rightarrow> fault + EditorState \<Rightarrow> fault + EditorState" where
  "main_loop_turn f r = (case r of Inl e \<Rightarrow> Inl e | Inr E \<Rightarrow> f (editor_refresh_screen E))"

subsection \<open>Example documents\<close>

text \<open>
  The examples are files opened in a terminal of 24 rows; the user answers the file
  type prompt with \<open>c\<close> (99) and Enter (10). A one-line document \<open>ab\<close>, cursor at
  the start.
\<close>

definition doc_ab :: EditorState where
  "doc_ab = the (editor_load_file [''ab''] [99, 10] (init_editor 24))"

text \<open>
  A code file of one empty line, and the runs of the main loop in which the user types
  \<open>a\<close>, then presses undo, then redo. What a run shows is its document and cursor.
\<close>

definition doc_empty :: EditorState where
  "doc_empty = the (editor_load_file [[]] [99, 10] (init_editor 24))"

definition typed_a :: "fault + EditorState" where
  "typed_a = main_loop_turn (editor_insert_char (CHR ''a'')) (Inr doc_empty)"

definition typed_a_undone :: "fault + EditorState" where
  "typed_a_undone = main_loop_turn editor_undo typed_a"

definition typed_a_redone :: "fault + EditorState" where
  "typed_a_redone = main_loop_turn editor_redo typed_a_undone"

definition shown :: "fault + EditorState \<Rightarrow> fault + string list \<times> int \<times> int" where
  "shown r = (case r of Inl e \<Rightarrow> Inl e | Inr E \<Rightarrow> Inr (document E, cursor_y E, cursor_x E))"

text \<open>A three-line document.\<close>

definition doc_three :: EditorState where
  "doc_three = the (editor_load_file [''ab'', ''cd'', ''ef''] [99, 10] (init_editor 24))"

text \<open>Command mode entered at time 0 and the key \<open>a\<close> (97) typed at time 0.\<close>

definition cmd_a :: EditorState where
  "cmd_a = handle_command_mode_input (\<lambda>E. E) (\<lambda>E. E) (\<lambda>E. E) 0 97 (enter_command_mode 0 doc_ab)"


text \<open>The sequence collected so far in command mode: the first \<open>length\<close> bytes.\<close>

definition command_text :: "EditorState \<Rightarrow> string" where
  "command_text E = take (nat (length_cmd (cmd E))) (sequence (cmd E))"


text \<open>
  A two-line code file with the cursor after the first character, and the states
  after Enter, undo and redo.
\<close>

definition doc_two :: EditorState where
  "doc_two = (the (editor_load_file [''ab'', ''cd''] [99, 10] (init_editor 24)))\<lparr>cursor_x := 1\<rparr>"

definition split_done :: EditorState where
  "split_done = editor_insert_newline doc_two"

definition split_undone :: "fault + EditorState" where
  "split_undone = editor_undo split_done"

definition split_redone :: "fault + EditorState" where
  "split_redone = bind_fault split_undone editor_redo"

text \<open>
  The user moves the cursor below the last line of \<open>ab\<close> with the Down key; the next
  key is a printable one.
\<close>

definition below_last_line :: EditorState where
  "below_last_line = editor_move_cursor KEY_DOWN (editor_refresh_screen doc_ab)"

text \<open>
  A line of 255 characters fills its buffer of 256 cells, so the next insertion grows
  the buffer. The line is taken after the first refresh of the main loop.
\<close>

definition doc_long :: EditorState where
  "doc_long = editor_refresh_screen
     (the (editor_load_file [replicate 255 (CHR ''a'')] [99, 10] (init_editor 24)))"

text \<open>What is left of a line after a primitive: buffer pointers, size and capacity.\<close>

definition line_shape :: "fault + EditorLine \<Rightarrow> fault + bool \<times> bool \<times> int \<times> int \<times> bool" where
  "line_shape r =
     (case r of
        Inl e \<Rightarrow> Inl e
      | Inr l \<Rightarrow> Inr (chars l = [], hl l = [], size_ln l, allocated l, line_ok l))"

subsection \<open>Block comments, read off the text\<close>

text \<open>
  Where a block comment is open is a property of the text alone. The scanner below
  follows the rules of the specification that decide it, character by character:
  inside a block comment only the closing marker \<open>*/\<close> matters; inside a quoted string
  a backslash escapes the next character and the opening quote character closes the
  string; elsewhere a quote character (\<open>'\<close>, \<open>"\<close> or a backquote) opens a string, a
  line comment marker (\<open>//\<close> or \<open>#\<close>) ends the line, and \<open>/*\<close> opens a block
  comment. A string does not continue on the next line. The result says whether a
  block comment is open at the end of the line.
\<close>

datatype scan_mode = InCode | InBlockComment | InString char

fun spec_scan :: "scan_mode \<Rightarrow> string \<Rightarrow> bool" where
  "spec_scan m [] = (m = InBlockComment)"
| "spec_scan m [c] = (m = InBlockComment)"
| "spec_scan InBlockComment (c # d # cs) =
     (if c = CHR ''*'' \<and> d = CHR ''/'' then spec_scan InCode cs
      else spec_scan InBlockComment (d # cs))"
| "spec_scan (InString q) (c # d # cs) =
     (if c = CHR 0x5C then spec_scan (InString q) cs
      else if c = q then spec_scan InCode (d # cs)
      else spec_scan (InString q) (d # cs))"
| "spec_scan InCode (c # d # cs) =
     (if c = CHR 0x27 \<or> c = CHR 0x22 \<or> c = CHR 0x60 then spec_scan (InString c) (d # cs)
      else if (c = CHR ''/'' \<and> d = CHR ''/'') \<or> c = CHR ''#'' then False
      else if c = CHR ''/'' \<and> d = CHR ''*'' then spec_scan InBlockComment cs
      else spec_scan InCode (d # cs))"

text \<open>
  A block comment is open after the rows \<open>rows\<close> of a document, scanned from the top
  with no comment open.
\<close>

definition spec_comment_open :: "string list \<Rightarrow> bool" where
  "spec_comment_open rows =
     foldl (\<lambda>open_c row. spec_scan (if open_c then InBlockComment else InCode) row) False rows"

text \<open>
  The abstraction of the highlighter's loop state to the scanner's mode, and the
  well-formedness of a line's two buffers.
\<close>

definition mode_of :: "hl_state \<Rightarrow> scan_mode" where
  "mode_of st =
     (if in_multiline_comment_this_line st then InBlockComment
      else if in_string st then InString (string_quote_char st) else InCode)"

definition buffers_ok :: "EditorLine \<Rightarrow> bool" where
  "buffers_ok l \<longleftrightarrow>
     0 \<le> size_ln l \<and> size_ln l < allocated l \<and> length (chars l) = nat (allocated l) \<and>
     (hl l = [] \<or> length (hl l) = nat (allocated l))"

text \<open>
  A line of \<open>n\<close> characters does not close a block comment: no \<open>*\<close> in it is
  followed, inside the line, by \<open>/\<close>.
\<close>

definition no_comment_close :: "char list \<Rightarrow> nat \<Rightarrow> bool" where
  "no_comment_close cs n \<longleftrightarrow>
     list_all (\<lambda>i. \<not> (cs ! i = CHR ''*'' \<and> cs ! (i + 1) = CHR ''/'')) [0..<n - 1]"

text \<open>
  A code file of four lines: a block comment opens and closes on the first, the second
  holds \<open>/*\<close> inside a string and then opens a block comment, the third holds quote
  characters and a number, the fourth closes the comment.
\<close>

definition doc_comment :: EditorState where
  "doc_comment = the (editor_load_file
     [''/* a */ x = 1'',
      [CHR ''s'', CHR '' '', CHR ''='', CHR '' '', CHR 0x22, CHR ''/'', CHR ''*'', CHR 0x22,
       CHR '';'', CHR '' '', CHR ''/'', CHR ''*'', CHR '' '', CHR ''b''],
      [CHR ''i'', CHR ''t'', CHR 0x27, CHR ''s'', CHR '' '', CHR 0x22, CHR ''q'', CHR 0x22,
       CHR '' '', CHR ''1'', CHR ''2''],
      ''c */ d''] [99, 10] (init_editor 24))"

text \<open>A code file whose first line opens a block comment in its first column.\<close>

definition doc_comment_top :: EditorState where
  "doc_comment_top = the (editor_load_file [''/* b'', ''it is 12'', ''c */ d''] [99, 10]
     (init_editor 24))"

section \<open>Properties\<close>

subsection \<open>Index errors are rejected before any mutation\<close>

text \<open>
  C7. An index outside the valid range makes each of the four primitives return at its
  first statement: \<open>editor_line_insert_char\<close> for \<open>at < 0\<close> or \<open>at > size\<close>
  (whatever the allocator would answer),
  \<open>editor_line_delete_char\<close> for \<open>at < 0\<close> or \<open>at \<ge> size\<close>, \<open>editor_insert_line\<close>
  for \<open>at < 0\<close> or \<open>at > num_lines\<close>, \<open>editor_delete_line\<close> for \<open>at < 0\<close> or
  \<open>at \<ge> num_lines\<close>. The line, respectively the whole editor state (every line's
  content and size, the line count), is returned unchanged.
\<close>

theorem index_errors_rejected:
  "(at < 0 \<or> at > size_ln line \<longrightarrow>
      editor_line_insert_char chars_ok hl_ok line at c = Inr line) \<and>
   (at < 0 \<or> at \<ge> size_ln line \<longrightarrow> editor_line_delete_char line at = Inr line) \<and>
   (at < 0 \<or> at > num_lines E \<longrightarrow> editor_insert_line at s len E = E) \<and>
   (at < 0 \<or> at \<ge> num_lines E \<longrightarrow> editor_delete_line at E = E)"
  by (simp add: editor_line_insert_char_def editor_line_delete_char_def
        editor_insert_line_def editor_delete_line_def)

theorem index_errors_rejected_witness:
  "size_ln (lines doc_ab ! 0) = 2 \<and> num_lines doc_ab = 1 \<and>
   editor_line_insert_char True True (lines doc_ab ! 0) 3 (CHR ''x'') = Inr (lines doc_ab ! 0) \<and>
   editor_line_insert_char True True (lines doc_ab ! 0) (- 1) (CHR ''x'') = Inr (lines doc_ab ! 0) \<and>
   editor_line_delete_char (lines doc_ab ! 0) 2 = Inr (lines doc_ab ! 0) \<and>
   editor_line_delete_char (lines doc_ab ! 0) (- 1) = Inr (lines doc_ab ! 0) \<and>
   editor_insert_line 2 ''zz'' 2 doc_ab = doc_ab \<and>
   editor_insert_line (- 1) ''zz'' 2 doc_ab = doc_ab \<and>
   editor_delete_line 1 doc_ab = doc_ab \<and>
   editor_delete_line (- 1) doc_ab = doc_ab"
proof -
  have h1: "size_ln (lines doc_ab ! 0) = 2" by code_simp
  have h2: "num_lines doc_ab = 1" by code_simp
  show ?thesis
    using h1 h2
      index_errors_rejected [where at = 3 and line = "lines doc_ab ! 0" and c = "CHR ''x''"
        and chars_ok = True and hl_ok = True]
      index_errors_rejected [where at = 2 and line = "lines doc_ab ! 0" and E = doc_ab
        and s = "''zz''" and len = 2]
      index_errors_rejected [where at = 1 and E = doc_ab]
      index_errors_rejected [where at = "- 1" and line = "lines doc_ab ! 0" and c = "CHR ''x''"
        and chars_ok = True and hl_ok = True and E = doc_ab and s = "''zz''" and len = 2]
    by simp
qed

subsection \<open>Backspace at the start of the document\<close>

text \<open>
  C9. \<open>editor_delete_char\<close> with the cursor at row 0, column 0, or with the cursor row
  equal to the number of lines, returns the editor state unchanged: document, cursor,
  dirty flag, dirty range, and both logs with their heads, so no undo action is pushed.
\<close>

theorem editor_delete_char_noop:
  "(cursor_x E = 0 \<and> cursor_y E = 0) \<or> cursor_y E = num_lines E \<Longrightarrow>
   editor_delete_char E = Inr E"
  by (auto simp add: editor_delete_char_def)

theorem editor_delete_char_noop_witness:
  "cursor_x doc_ab = 0 \<and> cursor_y doc_ab = 0 \<and> editor_delete_char doc_ab = Inr doc_ab \<and>
   cursor_y (doc_ab\<lparr>cursor_y := 1\<rparr>) = num_lines (doc_ab\<lparr>cursor_y := 1\<rparr>) \<and>
   editor_delete_char (doc_ab\<lparr>cursor_y := 1\<rparr>) = Inr (doc_ab\<lparr>cursor_y := 1\<rparr>)"
proof -
  have h1: "cursor_x doc_ab = 0 \<and> cursor_y doc_ab = 0" by code_simp
  have h2: "cursor_y (doc_ab\<lparr>cursor_y := 1\<rparr>) = num_lines (doc_ab\<lparr>cursor_y := 1\<rparr>)" by code_simp
  show ?thesis
    using h1 h2 editor_delete_char_noop [of doc_ab]
      editor_delete_char_noop [of "doc_ab\<lparr>cursor_y := 1\<rparr>"]
    by simp
qed

subsection \<open>Selection normalization\<close>

text \<open>
  C4. For two positions \<open>a = (y1, x1)\<close> and \<open>b = (y2, x2)\<close>,
  \<open>get_normalized_selection_coords\<close> returns the same \<open>(sy, sx, ey, ex)\<close> whether
  \<open>a\<close> is the anchor and \<open>b\<close> the cursor or the other way round; the result is the
  two positions themselves, and its start is not after its end in document order, rows
  compared first and columns on equal rows.
\<close>

theorem selection_normalization_symmetric:
  "get_normalized_selection_coords
     (E\<lparr>visual_start_y := y1, visual_start_x := x1, cursor_y := y2, cursor_x := x2\<rparr>) =
   get_normalized_selection_coords
     (E\<lparr>visual_start_y := y2, visual_start_x := x2, cursor_y := y1, cursor_x := x1\<rparr>)
   \<and> (case get_normalized_selection_coords
              (E\<lparr>visual_start_y := y1, visual_start_x := x1, cursor_y := y2, cursor_x := x2\<rparr>) of
        (sy, sx, ey, ex) \<Rightarrow>
          (sy < ey \<or> (sy = ey \<and> sx \<le> ex)) \<and>
          (((sy, sx) = (y1, x1) \<and> (ey, ex) = (y2, x2)) \<or>
           ((sy, sx) = (y2, x2) \<and> (ey, ex) = (y1, x1))))"
  by (auto simp add: get_normalized_selection_coords_def)

theorem selection_normalization_symmetric_witness:
  "get_normalized_selection_coords
     (doc_ab\<lparr>visual_start_y := 3, visual_start_x := 7, cursor_y := 3, cursor_x := 2\<rparr>) = (3, 2, 3, 7) \<and>
   get_normalized_selection_coords
     (doc_ab\<lparr>visual_start_y := 3, visual_start_x := 2, cursor_y := 3, cursor_x := 7\<rparr>) = (3, 2, 3, 7)"
  using selection_normalization_symmetric [where E = doc_ab and ?y1.0 = 3 and ?x1.0 = 7 and ?y2.0 = 3 and ?x2.0 = 2]
  by (simp add: get_normalized_selection_coords_def)

subsection \<open>Buffer helpers\<close>

lemma length_memmove:
  "d + n \<le> length b \<Longrightarrow> s + n \<le> length b \<Longrightarrow> length (memmove b d s n) = length b"
  by (simp add: memmove_def)

lemma length_memcpy:
  "d + n \<le> length b \<Longrightarrow> n \<le> length src \<Longrightarrow> length (memcpy b d src n) = length b"
  by (simp add: memcpy_def)

lemma length_realloc [simp]: "length (realloc b n f) = n"
  by (simp add: realloc_def)

lemma lines_mark_lines_dirty [simp]: "lines (mark_lines_dirty a b E) = lines E"
  by (simp add: mark_lines_dirty_def Let_def)

subsection \<open>NUL termination of line buffers\<close>

lemma line_ok_insert_char:
  assumes "line_ok line" "hl line \<noteq> []"
  shows "\<exists>l. editor_line_insert_char True True line at c = Inr l \<and> line_ok l"
proof (cases "at < 0 \<or> at > size_ln line")
  case True
  then show ?thesis using assms by (simp add: editor_line_insert_char_def)
next
  case False
  then have at: "0 \<le> at" "at \<le> size_ln line" by simp_all
  from assms have ok: "length (chars line) = nat (allocated line)" "0 \<le> size_ln line"
    "size_ln line < allocated line" by (simp_all add: line_ok_def)
  then have ne: "chars line \<noteq> []" by auto
  show ?thesis
  proof (cases "size_ln line + 2 > allocated line")
    case True
    with ok have a: "allocated line \<noteq> 0" "size_ln line + 2 \<le> allocated line * 2"
      "0 < nat (allocated line * 2)" by simp_all
    have r: "realloc (chars line) (nat (allocated line * 2)) uninit_char \<noteq> []"
      "realloc (hl line) (nat (allocated line * 2)) uninit_hl \<noteq> []"
      using a(3) by (auto simp add: realloc_def)
    with True at ok a show ?thesis
      by (simp add: editor_line_insert_char_def line_ok_def Let_def length_memmove
          nat_add_distrib nat_diff_distrib)
  next
    case False
    with at ok ne assms(2) show ?thesis
      by (simp add: editor_line_insert_char_def line_ok_def Let_def length_memmove
          nat_add_distrib nat_diff_distrib)
  qed
qed

lemma line_ok_delete_char:
  assumes "line_ok line" "hl line \<noteq> []"
  shows "\<exists>l. editor_line_delete_char line at = Inr l \<and> line_ok l"
proof (cases "at < 0 \<or> at \<ge> size_ln line")
  case True
  then show ?thesis using assms by (simp add: editor_line_delete_char_def)
next
  case False
  then have at: "0 \<le> at" "at < size_ln line" by simp_all
  from assms have ok: "length (chars line) = nat (allocated line)" "0 \<le> size_ln line"
    "size_ln line < allocated line" by (simp_all add: line_ok_def)
  then have ne: "chars line \<noteq> []" by auto
  with at ok assms(2) show ?thesis
    by (simp add: editor_line_delete_char_def line_ok_def Let_def length_memmove
        nat_add_distrib nat_diff_distrib)
qed

lemma line_ok_insert_line:
  assumes "0 \<le> at" "at \<le> num_lines E" "0 \<le> len" "nat len \<le> length s"
  shows "line_ok (lines (editor_insert_line at s len E) ! nat at)"
proof -
  have "nat at \<le> length (lines E)" using assms by (simp add: num_lines_def)
  then show ?thesis using assms
    by (simp add: editor_insert_line_def new_line_def Let_def nth_append line_ok_def
        length_memcpy lines_mark_lines_dirty MAX_LINE_LENGTH_BUFFER_def)
qed

text \<open>
  The three lemmas above are the part of C10 that the code keeps: on a well-formed line
  whose \<open>hl\<close> buffer is allocated, and with the allocator answering, the two character
  primitives return a well-formed line, and \<open>editor_insert_line\<close> creates one.

  C10 fails in the code at two inputs. The line of \<open>doc_long\<close> is well formed, holds
  255 characters in 256 cells and has its \<open>hl\<close> buffer. When the \<open>realloc\<close> of
  \<open>chars\<close> fails, \<open>editor_line_insert_char\<close> has already stored NULL in
  \<open>line->chars\<close> and returns: the line keeps \<open>size = 255\<close> and \<open>allocated = 256\<close>
  but has no buffer, so \<open>chars[size]\<close> is not a NUL terminator. And with the cursor
  below the last line of \<open>ab\<close>, a printable key makes \<open>editor_insert_char\<close> create
  a line with \<open>editor_insert_line\<close>, whose \<open>hl\<close> is NULL, and call
  \<open>editor_line_insert_char\<close> on it: the \<open>memmove\<close> on \<open>line->hl\<close> goes through
  NULL and the run ends there, no line is returned.
\<close>

theorem nul_termination_lost:
  "line_shape (Inr (lines doc_long ! 0)) = Inr (False, False, 255, 256, True) \<and>
   line_shape (editor_line_insert_char False True (lines doc_long ! 0) 0 (CHR ''x''))
     = Inr (True, False, 255, 256, False) \<and>
   document below_last_line = [''ab''] \<and> cursor_y below_last_line = 1 \<and>
   cursor_x below_last_line = 0 \<and>
   editor_insert_char (CHR ''x'') (editor_refresh_screen below_last_line) = Inl NullDereference"
  by code_simp

subsection \<open>The undo log is bounded and pruning clears the redo log\<close>



lemma clear_redo_history_fields [simp]:
  "redo_head (clear_redo_history E) = 0"
  "undo_head (clear_redo_history E) = undo_head E"
  "undo_history (clear_redo_history E) = undo_history E"
  by (simp_all add: clear_redo_history_def)



subsection \<open>Backspace in command mode\<close>

lemma cmd_reset_command_mode [simp]:
  "cmd (reset_command_mode E) =
     (cmd E)\<lparr>active := False, length_cmd := 0, sequence := (sequence (cmd E))[0 := CHR 0x00],
             last_key_time := 0, show_help := False\<rparr>"
  by (simp add: reset_command_mode_def set_status_message_def)

text \<open>
  C8, as stated, fails: with the one-character sequence \<open>a\<close> collected, Backspace
  (key 127) empties the sequence and the machine is still active.
\<close>

theorem backspace_to_empty_stays_active:
  "length_cmd (cmd cmd_a) = 1 \<and> active (cmd cmd_a) \<and>
   length_cmd (cmd (handle_command_mode_input (\<lambda>E. E) (\<lambda>E. E) (\<lambda>E. E) 0 127 cmd_a)) = 0 \<and>
   active (cmd (handle_command_mode_input (\<lambda>E. E) (\<lambda>E. E) (\<lambda>E. E) 0 127 cmd_a))"
  by code_simp

text \<open>
  C8, amended. While the command has not timed out, Backspace (\<open>KEY_BACKSPACE\<close> or 127)
  on a collected sequence of length at least 1 removes its last character, keeps the
  terminator in step and leaves the active flag as it was, also when the sequence
  becomes empty; Backspace on an empty sequence resets the machine: it is inactive and
  its sequence is empty.
\<close>

theorem backspace_in_command_mode:
  assumes key: "key = KEY_BACKSPACE \<or> key = 127"
    and live: "(now - last_key_time (cmd E)) * 1000 \<le> COMMAND_TIMEOUT_MS"
    and len: "0 \<le> length_cmd (cmd E)" "length_cmd (cmd E) < MAX_COMMAND_SEQUENCE_LENGTH"
    and buf: "length (sequence (cmd E)) = nat MAX_COMMAND_SEQUENCE_LENGTH"
  shows "(length_cmd (cmd E) > 0 \<longrightarrow>
           length_cmd (cmd (handle_command_mode_input ecm ac ecs now key E)) = length_cmd (cmd E) - 1 \<and>
           command_text (handle_command_mode_input ecm ac ecs now key E) = butlast (command_text E) \<and>
           sequence (cmd (handle_command_mode_input ecm ac ecs now key E))
             ! nat (length_cmd (cmd E) - 1) = CHR 0x00 \<and>
           active (cmd (handle_command_mode_input ecm ac ecs now key E)) = active (cmd E)) \<and>
         (length_cmd (cmd E) = 0 \<longrightarrow>
           \<not> active (cmd (handle_command_mode_input ecm ac ecs now key E)) \<and>
           length_cmd (cmd (handle_command_mode_input ecm ac ecs now key E)) = 0 \<and>
           command_text (handle_command_mode_input ecm ac ecs now key E) = [])"
proof -
  have k: "key \<noteq> 58" "key \<noteq> 9" "\<not> isprint key" "key \<noteq> KEY_ENTER" "key \<noteq> 10"
    using key by (auto simp: KEY_BACKSPACE_def KEY_ENTER_def isprint_def)
  have "butlast (take (nat (length_cmd (cmd E))) (sequence (cmd E)))
          = take (nat (length_cmd (cmd E) - 1)) (sequence (cmd E))"
  proof -
    have "nat (length_cmd (cmd E) - 1) = nat (length_cmd (cmd E)) - 1" by arith
    then show ?thesis
      using len buf by (simp add: butlast_take MAX_COMMAND_SEQUENCE_LENGTH_def)
  qed
  then show ?thesis
    using k key live len buf
    by (auto simp add: handle_command_mode_input_def command_text_def Let_def
        set_status_message_def MAX_COMMAND_SEQUENCE_LENGTH_def)
qed

theorem backspace_in_command_mode_witness:
  "length_cmd (cmd cmd_a) = 1 \<and>
   command_text cmd_a = ''a'' \<and>
   command_text (handle_command_mode_input (\<lambda>E. E) (\<lambda>E. E) (\<lambda>E. E) 1 127 cmd_a) = [] \<and>
   active (cmd (handle_command_mode_input (\<lambda>E. E) (\<lambda>E. E) (\<lambda>E. E) 1 127 cmd_a))"
proof -
  have h: "(127::int) = KEY_BACKSPACE \<or> (127::int) = 127"
    "(1 - last_key_time (cmd cmd_a)) * 1000 \<le> COMMAND_TIMEOUT_MS"
    "0 \<le> length_cmd (cmd cmd_a)" "length_cmd (cmd cmd_a) < MAX_COMMAND_SEQUENCE_LENGTH"
    "length (sequence (cmd cmd_a)) = nat MAX_COMMAND_SEQUENCE_LENGTH"
    by code_simp+
  have v: "length_cmd (cmd cmd_a) = 1" "command_text cmd_a = ''a''" "active (cmd cmd_a)"
    by code_simp+
  show ?thesis
    using backspace_in_command_mode [OF h, of "\<lambda>E. E" "\<lambda>E. E" "\<lambda>E. E"] v by simp
qed

subsection \<open>Undo followed by redo\<close>

text \<open>
  C1 at two concrete runs. In a code file of one empty line the user types \<open>a\<close>: the
  document is \<open>a\<close>, the cursor at (0, 1). Undo then inserts a second \<open>a\<close> instead of
  deleting the first, and redo inserts a third: after undo and redo the document is
  \<open>aaa\<close> and the cursor is at (0, 2), not the document \<open>a\<close> and cursor (0, 1) from
  before the undo. No run faults; what a run shows is the triple of document, cursor
  row and cursor column. In the document \<open>ab, cd\<close> with the cursor at (0, 1) the user presses
  Enter: the document is \<open>a, b, cd\<close>, the cursor at (1, 0). Undo joins the lines again,
  but redo splits row 1 at column 0, the cursor position from before the undo: after
  undo and redo the document is \<open>ab\<close>, an empty line, \<open>cd\<close> and the cursor is at (2, 0).
\<close>

theorem undo_redo_not_noop:
  "shown typed_a = Inr ([''a''], 0, 1) \<and>
   shown typed_a_undone = Inr ([''aa''], 0, 1) \<and>
   shown typed_a_redone = Inr ([''aaa''], 0, 2) \<and>
   document split_done = [''a'', ''b'', ''cd''] \<and> cursor_y split_done = 1 \<and>
   cursor_x split_done = 0 \<and>
   shown split_undone = Inr ([''ab'', ''cd''], 0, 1) \<and>
   shown split_redone = Inr ([''ab'', [], ''cd''], 2, 0)"
  by code_simp

subsection \<open>Extract, delete and re-insert a block\<close>

text \<open>
  C2 at a concrete run. In the document \<open>ab, cd, ef\<close> the range from (0, 1) to (1, 1)
  holds the text \<open>b\<close>, newline, \<open>c\<close>. Deleting it leaves \<open>ad, ef\<close>. Inserting the
  text back at (0, 1) gives \<open>ab, cefd\<close>: the second segment is spliced into the
  existing next line instead of becoming a line of its own, so the original document is
  not reconstructed.
\<close>

theorem block_roundtrip_fails:
  "get_selection_content 0 1 1 1 doc_three = (Some [CHR ''b'', CHR 0x0A, CHR ''c''], 2) \<and>
   document doc_three = [''ab'', ''cd'', ''ef''] \<and>
   document (editor_delete_text_block 0 1 1 1 doc_three) = [''ad'', ''ef''] \<and>
   document (editor_insert_text_block 0 1 (Some [CHR ''b'', CHR 0x0A, CHR ''c'']) 3
               (editor_delete_text_block 0 1 1 1 doc_three)) = [''ab'', ''cefd'']"
  by code_simp

subsection \<open>Split a line, then join\<close>






lemma push_undo_action_keeps [simp]:
  "lines (push_undo_action a E) = lines E"
  "cursor_x (push_undo_action a E) = cursor_x E"
  "cursor_y (push_undo_action a E) = cursor_y E"
  "num_lines (push_undo_action a E) = num_lines E"
  by (simp_all add: push_undo_action_def clear_redo_history_def Let_def num_lines_def)

lemma mark_lines_dirty_keeps [simp]:
  "cursor_x (mark_lines_dirty a b E) = cursor_x E"
  "cursor_y (mark_lines_dirty a b E) = cursor_y E"
  "num_lines (mark_lines_dirty a b E) = num_lines E"
  by (simp_all add: mark_lines_dirty_def Let_def num_lines_def)

lemma editor_insert_line_keeps [simp]:
  "cursor_x (editor_insert_line at s len E) = cursor_x E"
  "cursor_y (editor_insert_line at s len E) = cursor_y E"
  by (simp_all add: editor_insert_line_def Let_def)

lemma editor_delete_line_keeps [simp]:
  "cursor_x (editor_delete_line at E) = cursor_x E"
  "cursor_y (editor_delete_line at E) = cursor_y E"
  by (simp_all add: editor_delete_line_def Let_def)

lemma upd_line_keeps [simp]:
  "cursor_x (upd_line y f E) = cursor_x E"
  "cursor_y (upd_line y f E) = cursor_y E"
  "num_lines (upd_line y f E) = num_lines E"
  "lines (upd_line y f E) = (lines E)[nat y := f (lines E ! nat y)]"
  by (simp_all add: upd_line_def num_lines_def line_at_def)











end
